theory Spec2Isabelle
  imports Main "HOL-Library.Sublist" "HOL-Library.AList"
begin

section \<open>Parsed JSON values and the Python operations the driver applies to them\<close>

text \<open>
  The driver (\<^verbatim>\<open>libcloud/compute/drivers/brightbox.py\<close>) works on the objects that the
  JSON parser returns: \<^verbatim>\<open>None\<close>, booleans, numbers, strings, lists and dicts with string
  keys. A dict is an association list; a key is looked up with \<open>map_of\<close>, so the first
  binding of a key is the one the dict holds. Numbers are only ever copied by the driver:
  \<open>JInt\<close> is a Python int, \<open>JFloat m e\<close> stands for a float (mantissa and exponent).
  A string is a list of characters; the driver compares strings with its own key and
  status literals and tests them for these literals as substrings, nothing else.
\<close>

datatype json =
    JNull
  | JBool bool
  | JInt int
  | JFloat int int
  | JStr string
  | JList "json list"
  | JObj "(string \<times> json) list"

text \<open>
  The exceptions of the source are values: \<open>KeyError\<close> (a key missing from a dict),
  \<open>TypeError\<close> (subscripting, iterating or testing membership in a value that does not
  support it, hashing a list or a dict), and \<open>TransportError\<close> for whatever the
  connection raises (authentication failures and the like).
\<close>

datatype error = KeyError | TypeError | TransportError string

definition and_then :: "error + 'a \<Rightarrow> ('a \<Rightarrow> error + 'b) \<Rightarrow> error + 'b" where
  "and_then r f = (case r of Inl e \<Rightarrow> Inl e | Inr x \<Rightarrow> f x)"

text \<open>\<^verbatim>\<open>d[k]\<close> for a string \<open>k\<close>: a dict answers or raises KeyError; a string, a list
  (their indices must be integers) and every other value raise TypeError.\<close>

fun py_getitem :: "json \<Rightarrow> string \<Rightarrow> error + json" where
  "py_getitem (JObj kvs) k = (case map_of kvs k of None \<Rightarrow> Inl KeyError | Some v \<Rightarrow> Inr v)"
| "py_getitem _ k = Inl TypeError"

text \<open>\<^verbatim>\<open>k in d\<close> for a string \<open>k\<close>: key membership in a dict, the substring test in a
  string, element membership in a list; TypeError for a value that is not iterable.\<close>

fun py_contains :: "string \<Rightarrow> json \<Rightarrow> error + bool" where
  "py_contains k (JObj kvs) = Inr (map_of kvs k \<noteq> None)"
| "py_contains k (JStr s) = Inr (sublist k s)"
| "py_contains k (JList xs) = Inr (JStr k \<in> set xs)"
| "py_contains k _ = Inl TypeError"

text \<open>\<^verbatim>\<open>for x in d\<close>: the elements of a list, the keys of a dict, the one-character
  strings of a string; TypeError otherwise.\<close>

fun py_iter :: "json \<Rightarrow> error + json list" where
  "py_iter (JList xs) = Inr xs"
| "py_iter (JObj kvs) = Inr (map (\<lambda>kv. JStr (fst kv)) kvs)"
| "py_iter (JStr s) = Inr (map (\<lambda>c. JStr [c]) s)"
| "py_iter _ = Inl TypeError"

text \<open>\<^verbatim>\<open>[x[k] for x in xs]\<close>\<close>

fun getitem_each :: "string \<Rightarrow> json list \<Rightarrow> error + json list" where
  "getitem_each k [] = Inr []"
| "getitem_each k (x # xs) =
     and_then (py_getitem x k) (\<lambda>v. and_then (getitem_each k xs) (\<lambda>vs. Inr (v # vs)))"

text \<open>\<^verbatim>\<open>[x[k] for x in xs if k in x]\<close>\<close>

fun getitem_where_present :: "string \<Rightarrow> json list \<Rightarrow> error + json list" where
  "getitem_where_present k [] = Inr []"
| "getitem_where_present k (x # xs) =
     and_then (py_contains k x) (\<lambda>b.
       if b then and_then (py_getitem x k) (\<lambda>v.
                   and_then (getitem_where_present k xs) (\<lambda>vs. Inr (v # vs)))
       else getitem_where_present k xs)"

text \<open>\<^verbatim>\<open>list(map(f, xs))\<close> for an \<open>f\<close> that may raise: the first exception ends the call.\<close>

fun map_raising :: "('a \<Rightarrow> error + 'b) \<Rightarrow> 'a list \<Rightarrow> error + 'b list" where
  "map_raising f [] = Inr []"
| "map_raising f (x # xs) =
     and_then (f x) (\<lambda>y. and_then (map_raising f xs) (\<lambda>ys. Inr (y # ys)))"

section \<open>The driver\<close>

definition API_VERSION :: string where
  "API_VERSION = ''1.0''"

text \<open>\<^verbatim>\<open>_extract(d, keys)\<close> is \<^verbatim>\<open>dict((k, d[k]) for k in keys if k in d)\<close>. The result
  lists its entries in the order of \<open>keys\<close>; the two key lists the driver passes have no
  repeated key.\<close>

fun extract' :: "json \<Rightarrow> string list \<Rightarrow> error + (string \<times> json) list" where
  "extract' d [] = Inr []"
| "extract' d (k # keys) =
     and_then (py_contains k d) (\<lambda>b.
       if b then and_then (py_getitem d k) (\<lambda>v.
                   and_then (extract' d keys) (\<lambda>r. Inr ((k, v) # r)))
       else extract' d keys)"

text \<open>Modelled from the spec: the canonical lifecycle enum \<^verbatim>\<open>NodeState\<close> of
  \<^verbatim>\<open>libcloud.compute.types\<close>, which is not among the sources. The spec's status table
  and the driver name four of its values; the library's fifth, \<open>REBOOTING\<close>, is kept
  so that the type is not narrower than the library's.\<close>

datatype NodeState = RUNNING | REBOOTING | TERMINATED | PENDING | UNKNOWN

definition NODE_STATE_MAP :: "(string \<times> NodeState) list" where
  "NODE_STATE_MAP =
     [(''creating'', PENDING),
      (''active'', RUNNING),
      (''inactive'', UNKNOWN),
      (''deleting'', UNKNOWN),
      (''deleted'', TERMINATED),
      (''failed'', UNKNOWN),
      (''unavailable'', UNKNOWN)]"

text \<open>\<^verbatim>\<open>self.NODE_STATE_MAP[v]\<close>: a list or a dict is unhashable (TypeError); every
  other value is hashable and, unless it is one of the seven strings, missing.\<close>

fun NODE_STATE_MAP_getitem :: "json \<Rightarrow> error + NodeState" where
  "NODE_STATE_MAP_getitem (JStr s) =
     (case map_of NODE_STATE_MAP s of None \<Rightarrow> Inl KeyError | Some st \<Rightarrow> Inr st)"
| "NODE_STATE_MAP_getitem (JList xs) = Inl TypeError"
| "NODE_STATE_MAP_getitem (JObj kvs) = Inl TypeError"
| "NODE_STATE_MAP_getitem _ = Inl KeyError"

text \<open>Modelled from the spec: the connection (\<^verbatim>\<open>BrightboxConnection\<close> of
  \<^verbatim>\<open>libcloud.common.brightbox\<close>, not among the sources), the spec's transport
  collaborator. A request is what the driver passes to \<^verbatim>\<open>connection.request\<close>: the path
  (the format string and the values substituted for its \<^verbatim>\<open>%s\<close>), and the method, data
  and headers when the driver gives them. A response has the status code and the parsed
  body. The connection keeps the requests it was sent, and answers (or raises) as its
  \<open>respond\<close> function says, from the requests sent before and the request.\<close>

type_synonym driver_ref = nat

record request =
  req_path :: "string \<times> json list"
  req_method :: "string option"
  req_data :: "(string \<times> json) list option"
  req_headers :: "(string \<times> string) list option"

record response =
  resp_status :: int
  resp_object :: json

record connection =
  conn_driver :: driver_ref
  sent :: "request list"
  respond :: "request list \<Rightarrow> request \<Rightarrow> error + response"

definition conn_request :: "connection \<Rightarrow> request \<Rightarrow> (error + response) \<times> connection" where
  "conn_request c r = (respond c (sent c) r, c\<lparr>sent := sent c @ [r]\<rparr>)"

text \<open>The driver object: its identity and its connection.\<close>

record BrightboxNodeDriver =
  self_ref :: driver_ref
  connection :: connection

text \<open>Modelled from the spec: the canonical entities \<^verbatim>\<open>Node\<close>, \<^verbatim>\<open>NodeImage\<close>,
  \<^verbatim>\<open>NodeSize\<close> and \<^verbatim>\<open>NodeLocation\<close> of \<^verbatim>\<open>libcloud.compute.base\<close>, not among the
  sources: each holds the keyword arguments the driver constructs it with. An entry of
  an image's extension bag is a value copied from the payload (\<open>Raw\<close>) or, under
  \<^verbatim>\<open>ancestor\<close>, a normalized image (\<open>Img\<close>).\<close>

record NodeSize =
  size_id :: json
  size_name :: json
  size_ram :: json
  size_disk :: json
  size_bandwidth :: int
  size_price :: int
  size_driver :: driver_ref

record NodeLocation =
  location_id :: json
  location_name :: json
  location_country :: string
  location_driver :: driver_ref

datatype pyval = Raw json | Img NodeImage
and NodeImage =
  NodeImage (image_id: json) (image_name: json) (image_driver: driver_ref)
            (image_extra: "(string \<times> pyval) list")

record Node =
  node_id :: json
  node_name :: json
  node_state :: NodeState
  private_ips :: "json list"
  public_ips :: "json list"
  node_driver :: driver_ref
  node_size :: NodeSize
  node_image :: NodeImage
  node_extra :: "(string \<times> json) list"

definition node_extra_keys :: "string list" where
  "node_extra_keys =
     [''fqdn'', ''status'', ''interfaces'', ''zone'', ''snapshots'', ''server_groups'',
      ''hostname'', ''started_at'', ''created_at'', ''deleted_at'']"

definition image_extra_keys :: "string list" where
  "image_extra_keys =
     [''ancestor'', ''arch'', ''compatibility_mode'', ''created_at'',
      ''description'', ''disk_size'', ''min_ram'', ''official'',
      ''owner'', ''public'', ''source'', ''source_type'',
      ''status'', ''username'', ''virtual_size'', ''licence_name'']"

text \<open>\<^verbatim>\<open>_to_image\<close> calls itself on the value of \<^verbatim>\<open>ancestor\<close>, a part of the payload: a
  value that a dict holds is smaller than the dict, so the recursion ends.\<close>

lemma py_getitem_size: "py_getitem d k = Inr v \<Longrightarrow> size v < size d"
proof (cases d)
  case (JObj kvs)
  assume "py_getitem d k = Inr v"
  with JObj have "map_of kvs k = Some v"
    by (simp split: option.splits)
  then have "(k, v) \<in> set kvs"
    by (rule map_of_SomeD)
  then have "size v < Suc (size_list (size_prod (\<lambda>_. 0) size) kvs)"
    by (induction kvs) auto
  with JObj show ?thesis by simp
qed simp_all

text \<open>\<open>raw\<close> is the dict that \<^verbatim>\<open>_extract\<close> returns; its values become entries of the
  extension bag as they are (\<open>Raw\<close>). The assignment to \<^verbatim>\<open>extra_data['ancestor']\<close>
  replaces the value of a key the dict already has. \<^verbatim>\<open>id\<close> and \<^verbatim>\<open>name\<close> are read last,
  when the image is constructed.\<close>

function to_image :: "BrightboxNodeDriver \<Rightarrow> json \<Rightarrow> error + NodeImage" where
  "to_image self data =
     (case extract' data image_extra_keys of
        Inl e \<Rightarrow> Inl e
      | Inr raw \<Rightarrow>
          (case (case py_contains ''ancestor'' data of
                   Inl e \<Rightarrow> Inl e
                 | Inr present \<Rightarrow>
                     if present then
                       (case py_getitem data ''ancestor'' of
                          Inl e \<Rightarrow> Inl e
                        | Inr a \<Rightarrow>
                            if a \<noteq> JNull then
                              (case to_image self a of
                                 Inl e \<Rightarrow> Inl e
                               | Inr anc \<Rightarrow>
                                   Inr (AList.update ''ancestor'' (Img anc)
                                          (map (\<lambda>kv. (fst kv, Raw (snd kv))) raw)))
                            else Inr (map (\<lambda>kv. (fst kv, Raw (snd kv))) raw))
                     else Inr (map (\<lambda>kv. (fst kv, Raw (snd kv))) raw)) of
             Inl e \<Rightarrow> Inl e
           | Inr extra_data \<Rightarrow>
               and_then (py_getitem data ''id'') (\<lambda>i.
               and_then (py_getitem data ''name'') (\<lambda>n.
               Inr (NodeImage i n (self_ref self) extra_data)))))"
  by pat_completeness auto
termination
  by (relation "measure (\<lambda>(self, data). size data)") (auto dest: py_getitem_size)

declare to_image.simps [simp del]

definition to_size :: "BrightboxNodeDriver \<Rightarrow> json \<Rightarrow> error + NodeSize" where
  "to_size self data =
     and_then (py_getitem data ''id'') (\<lambda>i.
     and_then (py_getitem data ''name'') (\<lambda>n.
     and_then (py_getitem data ''ram'') (\<lambda>r.
     and_then (py_getitem data ''disk_size'') (\<lambda>d.
     Inr \<lparr>size_id = i, size_name = n, size_ram = r, size_disk = d,
          size_bandwidth = 0, size_price = 0, size_driver = self_ref self\<rparr>))))"

definition to_location :: "BrightboxNodeDriver \<Rightarrow> json \<Rightarrow> error + NodeLocation" where
  "to_location self data =
     and_then (py_getitem data ''id'') (\<lambda>i.
     and_then (py_getitem data ''handle'') (\<lambda>h.
     Inr \<lparr>location_id = i, location_name = h, location_country = ''GB'',
          location_driver = self_ref self\<rparr>))"

text \<open>The keyword arguments of \<^verbatim>\<open>Node(...)\<close> are evaluated in the order they are
  written, so the first of them that raises decides the exception.\<close>

definition to_node :: "BrightboxNodeDriver \<Rightarrow> json \<Rightarrow> error + Node" where
  "to_node self data =
     and_then (py_getitem data ''id'') (\<lambda>i.
     and_then (py_getitem data ''name'') (\<lambda>n.
     and_then (and_then (py_getitem data ''status'') NODE_STATE_MAP_getitem) (\<lambda>st.
     and_then (and_then (and_then (py_getitem data ''interfaces'') py_iter)
                 (getitem_where_present ''ipv4_address'')) (\<lambda>priv.
     and_then (and_then (and_then (py_getitem data ''cloud_ips'') py_iter)
                 (getitem_each ''public_ip'')) (\<lambda>cloud.
     and_then (and_then (and_then (py_getitem data ''interfaces'') py_iter)
                 (getitem_where_present ''ipv6_address'')) (\<lambda>v6.
     and_then (and_then (py_getitem data ''server_type'') (to_size self)) (\<lambda>sz.
     and_then (and_then (py_getitem data ''image'') (to_image self)) (\<lambda>im.
     and_then (extract' data node_extra_keys) (\<lambda>ex.
     Inr \<lparr>node_id = i, node_name = n, node_state = st,
          private_ips = priv, public_ips = cloud @ v6,
          node_driver = conn_driver (connection self),
          node_size = sz, node_image = im, node_extra = ex\<rparr>)))))))))"

text \<open>\<^verbatim>\<open>self.connection.request(...)\<close>: the call goes through the driver's connection,
  which records it.\<close>

definition request :: "BrightboxNodeDriver \<Rightarrow> request \<Rightarrow> (error + response) \<times> BrightboxNodeDriver" where
  "request self r =
     (case conn_request (connection self) r of (res, c) \<Rightarrow> (res, self\<lparr>connection := c\<rparr>))"

text \<open>\<^verbatim>\<open>_post(self, path, data={})\<close>; a caller that gives no data passes the empty dict.\<close>

definition post :: "BrightboxNodeDriver \<Rightarrow> string \<times> json list \<Rightarrow> (string \<times> json) list
    \<Rightarrow> (error + response) \<times> BrightboxNodeDriver" where
  "post self path data =
     request self \<lparr>req_path = path, req_method = Some ''POST'', req_data = Some data,
                   req_headers = Some [(''Content-Type'', ''application/json'')]\<rparr>"

text \<open>A request with the path alone, and one with a method: the other arguments of
  \<^verbatim>\<open>connection.request\<close> are left to the connection's defaults.\<close>

definition get_request :: "string \<times> json list \<Rightarrow> request" where
  "get_request path =
     \<lparr>req_path = path, req_method = None, req_data = None, req_headers = None\<rparr>"

definition delete_request :: "string \<times> json list \<Rightarrow> request" where
  "delete_request path =
     \<lparr>req_path = path, req_method = Some ''DELETE'', req_data = None, req_headers = None\<rparr>"

text \<open>The keyword arguments of \<^verbatim>\<open>create_node\<close>: \<open>None\<close> is a keyword that was not
  passed. The dict literal reads \<^verbatim>\<open>name\<close>, \<^verbatim>\<open>size\<close> and \<^verbatim>\<open>image\<close> in this order,
  each a KeyError when missing; \<^verbatim>\<open>zone\<close> is then assigned in both branches of the
  test for \<^verbatim>\<open>location\<close>. The size, the image and the location are entities, as the
  driver's \<^verbatim>\<open>.id\<close> expects; a call that passes another object for one of them (Python's
  \<^verbatim>\<open>None\<close> for the location, say, which has no \<^verbatim>\<open>id\<close>) is outside this record.\<close>

record create_node_kwargs =
  kw_name :: "json option"
  kw_size :: "NodeSize option"
  kw_image :: "NodeImage option"
  kw_location :: "NodeLocation option"

definition create_node_data :: "create_node_kwargs \<Rightarrow> error + (string \<times> json) list" where
  "create_node_data kwargs =
     (case kw_name kwargs of None \<Rightarrow> Inl KeyError | Some n \<Rightarrow>
     (case kw_size kwargs of None \<Rightarrow> Inl KeyError | Some sz \<Rightarrow>
     (case kw_image kwargs of None \<Rightarrow> Inl KeyError | Some im \<Rightarrow>
        Inr (AList.update ''zone''
               (case kw_location kwargs of Some loc \<Rightarrow> location_id loc | None \<Rightarrow> JStr [])
               [(''name'', n), (''server_type'', size_id sz), (''image'', image_id im),
                (''user_data'', JStr [])]))))"

definition create_node :: "BrightboxNodeDriver \<Rightarrow> create_node_kwargs
    \<Rightarrow> (error + Node) \<times> BrightboxNodeDriver" where
  "create_node self kwargs =
     (case create_node_data kwargs of
        Inl e \<Rightarrow> (Inl e, self)
      | Inr data \<Rightarrow>
          (case post self (''/%s/servers'', [JStr API_VERSION]) data of
             (res, self') \<Rightarrow>
               (and_then res (\<lambda>resp. to_node self' (resp_object resp)), self')))"

text \<open>\<^verbatim>\<open>httplib.ACCEPTED\<close> and \<^verbatim>\<open>httplib.OK\<close> of the standard library.\<close>

definition ACCEPTED :: int where
  "ACCEPTED = 202"

definition OK :: int where
  "OK = 200"

definition destroy_node :: "BrightboxNodeDriver \<Rightarrow> Node \<Rightarrow> (error + bool) \<times> BrightboxNodeDriver" where
  "destroy_node self node =
     (case request self (delete_request (''/%s/servers/%s'', [JStr API_VERSION, node_id node])) of
        (res, self') \<Rightarrow> (and_then res (\<lambda>resp. Inr (resp_status resp = ACCEPTED)), self'))"

definition list_nodes :: "BrightboxNodeDriver \<Rightarrow> (error + Node list) \<times> BrightboxNodeDriver" where
  "list_nodes self =
     (case request self (get_request (''/%s/servers'', [JStr API_VERSION])) of
        (res, self') \<Rightarrow>
          (and_then res (\<lambda>resp.
             and_then (py_iter (resp_object resp)) (map_raising (to_node self'))), self'))"

definition list_images :: "BrightboxNodeDriver \<Rightarrow> (error + NodeImage list) \<times> BrightboxNodeDriver" where
  "list_images self =
     (case request self (get_request (''/%s/images'', [JStr API_VERSION])) of
        (res, self') \<Rightarrow>
          (and_then res (\<lambda>resp.
             and_then (py_iter (resp_object resp)) (map_raising (to_image self'))), self'))"

definition list_sizes :: "BrightboxNodeDriver \<Rightarrow> (error + NodeSize list) \<times> BrightboxNodeDriver" where
  "list_sizes self =
     (case request self (get_request (''/%s/server_types'', [JStr API_VERSION])) of
        (res, self') \<Rightarrow>
          (and_then res (\<lambda>resp.
             and_then (py_iter (resp_object resp)) (map_raising (to_size self'))), self'))"

definition list_locations :: "BrightboxNodeDriver \<Rightarrow> (error + NodeLocation list) \<times> BrightboxNodeDriver" where
  "list_locations self =
     (case request self (get_request (''/%s/zones'', [JStr API_VERSION])) of
        (res, self') \<Rightarrow>
          (and_then res (\<lambda>resp.
             and_then (py_iter (resp_object resp)) (map_raising (to_location self'))), self'))"

definition ex_list_cloud_ips :: "BrightboxNodeDriver \<Rightarrow> (error + json) \<times> BrightboxNodeDriver" where
  "ex_list_cloud_ips self =
     (case request self (get_request (''/%s/cloud_ips'', [JStr API_VERSION])) of
        (res, self') \<Rightarrow> (and_then res (\<lambda>resp. Inr (resp_object resp)), self'))"

definition ex_create_cloud_ip :: "BrightboxNodeDriver \<Rightarrow> (error + json) \<times> BrightboxNodeDriver" where
  "ex_create_cloud_ip self =
     (case post self (''/%s/cloud_ips'', [JStr API_VERSION]) [] of
        (res, self') \<Rightarrow> (and_then res (\<lambda>resp. Inr (resp_object resp)), self'))"

definition ex_map_cloud_ip :: "BrightboxNodeDriver \<Rightarrow> json \<Rightarrow> json
    \<Rightarrow> (error + bool) \<times> BrightboxNodeDriver" where
  "ex_map_cloud_ip self cloud_ip_id interface_id =
     (case post self (''/%s/cloud_ips/%s/map'', [JStr API_VERSION, cloud_ip_id])
             [(''interface'', interface_id)] of
        (res, self') \<Rightarrow> (and_then res (\<lambda>resp. Inr (resp_status resp = ACCEPTED)), self'))"

definition ex_unmap_cloud_ip :: "BrightboxNodeDriver \<Rightarrow> json
    \<Rightarrow> (error + bool) \<times> BrightboxNodeDriver" where
  "ex_unmap_cloud_ip self cloud_ip_id =
     (case post self (''/%s/cloud_ips/%s/unmap'', [JStr API_VERSION, cloud_ip_id]) [] of
        (res, self') \<Rightarrow> (and_then res (\<lambda>resp. Inr (resp_status resp = ACCEPTED)), self'))"

definition ex_destroy_cloud_ip :: "BrightboxNodeDriver \<Rightarrow> json
    \<Rightarrow> (error + bool) \<times> BrightboxNodeDriver" where
  "ex_destroy_cloud_ip self cloud_ip_id =
     (case request self (delete_request (''/%s/cloud_ips/%s'', [JStr API_VERSION, cloud_ip_id])) of
        (res, self') \<Rightarrow> (and_then res (\<lambda>resp. Inr (resp_status resp = OK)), self'))"

section \<open>Auxiliary definitions and sample data\<close>

text \<open>The entries that \<^verbatim>\<open>_extract\<close> yields for an image payload with the fields \<open>kvs\<close>, as
  entries of an extension bag. This is a notion of the proofs, not of the driver.\<close>

definition raw_extra :: "(string \<times> json) list \<Rightarrow> (string \<times> pyval) list" where
  "raw_extra kvs = map (\<lambda>kv. (fst kv, Raw (snd kv)))
     (List.map_filter (\<lambda>k. map_option (Pair k) (map_of kvs k)) image_extra_keys)"

text \<open>Sample payloads in the shape of the provider's documents, with the identifiers the
  driver's tests use, and the entities they normalize to. \<^verbatim>\<open>url\<close> is a field that is on no
  allow-list. The sample connection answers a DELETE and a POST with 202 (the POST
  with the sample server as body) and every other request with 200 and a list of
  servers; the connection of \<open>example_driver_ok\<close> answers every request with 200 and a
  list of server types, the second of which lacks \<^verbatim>\<open>ram\<close> and \<^verbatim>\<open>disk_size\<close>.\<close>

definition example_size_payload :: json where
  "example_size_payload =
     JObj [(''id'', JStr ''typ-4nssg''), (''name'', JStr ''Brightbox Nano Instance''),
           (''handle'', JStr ''nano''), (''ram'', JInt 512), (''disk_size'', JInt 10240)]"

definition example_incomplete_payload :: json where
  "example_incomplete_payload = JObj [(''id'', JStr ''typ-urtky''), (''name'', JStr ''Small'')]"

definition example_ancestor_payload :: json where
  "example_ancestor_payload =
     JObj [(''id'', JStr ''img-9vxqi''), (''url'', JStr ''images/img-9vxqi''),
           (''name'', JStr ''Brightbox Lucid 32''), (''ancestor'', JNull),
           (''arch'', JStr ''i686'')]"

definition example_image_fields :: "(string \<times> json) list" where
  "example_image_fields =
     [(''id'', JStr ''img-99q79''), (''url'', JStr ''images/img-99q79''),
           (''name'', JStr ''CentOS 5.5 server''), (''arch'', JStr ''i686''),
           (''ancestor'', example_ancestor_payload), (''official'', JBool False)]"

definition example_image_payload :: json where
  "example_image_payload = JObj example_image_fields"

definition example_plain_image_payload :: json where
  "example_plain_image_payload =
     JObj [(''id'', JStr ''img-j93gd''), (''name'', JStr ''Upload''), (''min_ram'', JNull)]"

definition example_interfaces :: "(string \<times> json) list list" where
  "example_interfaces =
     [[(''id'', JStr ''int-ztqbx''), (''ipv4_address'', JStr ''10.74.210.210'')],
      [(''id'', JStr ''int-mc3a9''),
       (''ipv6_address'', JStr ''2a02:1348:14c:393a:24:19ff:fef0:e4ea'')],
      [(''ipv4_address'', JStr ''10.240.228.234''),
       (''ipv6_address'', JStr ''2a02:1348:14c:393a:24:19ff:fef0:e4eb'')]]"

definition example_cloud_ips :: "(string \<times> json) list list" where
  "example_cloud_ips =
     [[(''id'', JStr ''cip-tlrp3''), (''public_ip'', JStr ''109.107.35.16'')]]"

definition example_server_fields :: "string \<Rightarrow> (string \<times> json) list" where
  "example_server_fields st =
     [(''id'', JStr ''srv-xvpn7''), (''url'', JStr ''servers/srv-xvpn7''),
      (''name'', JStr ''Test Node''), (''status'', JStr st),
      (''hostname'', JStr ''srv-xvpn7''), (''fqdn'', JStr ''srv-xvpn7.gb1.brightbox.com''),
      (''interfaces'', JList (map JObj example_interfaces)),
      (''cloud_ips'', JList (map JObj example_cloud_ips)),
      (''server_type'', example_size_payload), (''image'', example_image_payload)]"

definition example_server :: json where
  "example_server = JObj (example_server_fields ''active'')"

definition example_connection :: connection where
  "example_connection =
     \<lparr>conn_driver = 1, sent = [],
      respond = (\<lambda>before r.
        if req_method r = Some ''DELETE'' then Inr \<lparr>resp_status = 202, resp_object = JNull\<rparr>
        else if req_method r = Some ''POST'' then Inr \<lparr>resp_status = 202, resp_object = example_server\<rparr>
        else Inr \<lparr>resp_status = 200, resp_object = JList [example_server]\<rparr>)\<rparr>"

definition example_driver :: BrightboxNodeDriver where
  "example_driver = \<lparr>self_ref = 1, connection = example_connection\<rparr>"

definition example_driver_ok :: BrightboxNodeDriver where
  "example_driver_ok =
     \<lparr>self_ref = 1,
      connection = \<lparr>conn_driver = 1, sent = [],
        respond = (\<lambda>before r. Inr \<lparr>resp_status = 200,
          resp_object = JList [example_size_payload, example_incomplete_payload]\<rparr>)\<rparr>\<rparr>"

definition example_size :: NodeSize where
  "example_size =
     \<lparr>size_id = JStr ''typ-4nssg'', size_name = JStr ''Brightbox Nano Instance'',
      size_ram = JInt 512, size_disk = JInt 10240, size_bandwidth = 0, size_price = 0,
      size_driver = 1\<rparr>"

definition example_location :: NodeLocation where
  "example_location =
     \<lparr>location_id = JStr ''zon-6mxqw'', location_name = JStr ''gb1-a'',
      location_country = ''GB'', location_driver = 1\<rparr>"

definition example_ancestor :: NodeImage where
  "example_ancestor =
     NodeImage (JStr ''img-9vxqi'') (JStr ''Brightbox Lucid 32'') 1
       [(''ancestor'', Raw JNull), (''arch'', Raw (JStr ''i686''))]"

definition example_image :: NodeImage where
  "example_image =
     NodeImage (JStr ''img-99q79'') (JStr ''CentOS 5.5 server'') 1
       [(''ancestor'', Img example_ancestor), (''arch'', Raw (JStr ''i686'')),
        (''official'', Raw (JBool False))]"

definition example_plain_image :: NodeImage where
  "example_plain_image =
     NodeImage (JStr ''img-j93gd'') (JStr ''Upload'') 1 [(''min_ram'', Raw JNull)]"

definition example_node :: Node where
  "example_node =
     \<lparr>node_id = JStr ''srv-xvpn7'', node_name = JStr ''Test Node'', node_state = RUNNING,
      private_ips = [JStr ''10.74.210.210'', JStr ''10.240.228.234''],
      public_ips = [JStr ''109.107.35.16'', JStr ''2a02:1348:14c:393a:24:19ff:fef0:e4ea'',
                    JStr ''2a02:1348:14c:393a:24:19ff:fef0:e4eb''],
      node_driver = 1, node_size = example_size, node_image = example_image,
      node_extra =
        [(''fqdn'', JStr ''srv-xvpn7.gb1.brightbox.com''), (''status'', JStr ''active''),
         (''interfaces'', JList (map JObj example_interfaces)),
         (''hostname'', JStr ''srv-xvpn7'')]\<rparr>"

definition example_kwargs :: create_node_kwargs where
  "example_kwargs =
     \<lparr>kw_name = Some (JStr ''Test Node''), kw_size = Some example_size,
      kw_image = Some example_image, kw_location = None\<rparr>"

definition example_create_request :: "json \<Rightarrow> request" where
  "example_create_request zone =
     \<lparr>req_path = (''/%s/servers'', [JStr ''1.0'']), req_method = Some ''POST'',
      req_data = Some [(''name'', JStr ''Test Node''), (''server_type'', JStr ''typ-4nssg''),
                       (''image'', JStr ''img-99q79''), (''user_data'', JStr ''''),
                       (''zone'', zone)],
      req_headers = Some [(''Content-Type'', ''application/json'')]\<rparr>"

section \<open>Basic facts\<close>

lemma and_then_Inl [simp]: "and_then (Inl e) f = Inl e"
  by (simp add: and_then_def)

lemma and_then_Inr [simp]: "and_then (Inr x) f = f x"
  by (simp add: and_then_def)

lemma and_then_eq_Inr: "and_then r f = Inr y \<longleftrightarrow> (\<exists>x. r = Inr x \<and> f x = Inr y)"
  by (cases r) simp_all

lemma py_getitem_Inr_obj: "py_getitem d k = Inr v \<Longrightarrow> \<exists>kvs. d = JObj kvs \<and> map_of kvs k = Some v"
  by (cases d) (simp_all split: option.splits)

lemma py_getitem_obj_Inr: "py_getitem (JObj kvs) k = Inr v \<longleftrightarrow> map_of kvs k = Some v"
  by (simp split: option.splits)

lemma extract_obj:
  "extract' (JObj kvs) keys = Inr (List.map_filter (\<lambda>k. map_option (Pair k) (map_of kvs k)) keys)"
  by (induction keys) (auto simp: List.map_filter_simps split: option.splits)

lemma map_of_map_filter_keys:
  "map_of (List.map_filter (\<lambda>k. map_option (Pair k) (m k)) keys) k =
     (if k \<in> set keys then m k else None)"
  by (induction keys) (auto simp: List.map_filter_simps split: option.splits)

lemma fst_set_map_filter_keys:
  "fst ` set (List.map_filter (\<lambda>k. map_option (Pair k) (m k)) keys) = set keys \<inter> dom m"
  by (induction keys) (auto simp: List.map_filter_simps split: option.splits)

lemma map_fst_map_filter_keys:
  "map fst (List.map_filter (\<lambda>k. map_option (Pair k) (m k)) keys) = filter (\<lambda>k. m k \<noteq> None) keys"
  by (induction keys) (auto simp: List.map_filter_simps split: option.splits)

lemma map_filter_keys_cong:
  "(\<And>k. k \<in> set keys \<Longrightarrow> m k = m' k) \<Longrightarrow>
   List.map_filter (\<lambda>k. map_option (Pair k) (m k)) keys =
   List.map_filter (\<lambda>k. map_option (Pair k) (m' k)) keys"
  by (induction keys) (auto simp: List.map_filter_simps split: option.splits)

lemma map_of_filter_other:
  "k' \<noteq> k \<Longrightarrow> map_of (filter (\<lambda>kv. fst kv \<noteq> k) kvs) k' = map_of kvs k'"
  by (induction kvs) auto

lemma getitem_where_present_objs:
  "getitem_where_present k (map JObj os) = Inr (List.map_filter (\<lambda>ob. map_of ob k) os)"
  by (induction os) (auto simp: List.map_filter_simps split: option.splits)

lemma getitem_each_objs:
  "getitem_each k (map JObj os) = Inr vs \<Longrightarrow> map (\<lambda>ob. map_of ob k) os = map Some vs"
  by (induction os arbitrary: vs) (auto simp: and_then_eq_Inr split: option.splits)

lemma map_raising_Inl:
  "x \<in> set xs \<Longrightarrow> f x = Inl e \<Longrightarrow> \<exists>e'. map_raising f xs = Inl e'"
proof (induction xs)
  case (Cons y ys)
  then show ?case
    by (cases "f y"; cases "map_raising f ys") auto
qed simp

subsection \<open>The image normalizer on a dict\<close>

text \<open>On a dict \<^verbatim>\<open>_extract\<close> cannot raise, and the membership test and the lookup of
  \<^verbatim>\<open>ancestor\<close> agree, so the function unfolds to one case distinction on the ancestor
  field. On every other value it raises.\<close>

lemma to_image_obj:
  "to_image self (JObj kvs) =
     and_then
       (case map_of kvs ''ancestor'' of
          None \<Rightarrow> Inr (raw_extra kvs)
        | Some a \<Rightarrow>
            if a = JNull then Inr (raw_extra kvs)
            else and_then (to_image self a)
                   (\<lambda>anc. Inr (AList.update ''ancestor'' (Img anc) (raw_extra kvs))))
       (\<lambda>extra_data.
          and_then (py_getitem (JObj kvs) ''id'') (\<lambda>i.
          and_then (py_getitem (JObj kvs) ''name'') (\<lambda>n.
          Inr (NodeImage i n (self_ref self) extra_data))))"
  by (subst to_image.simps)
     (simp add: extract_obj raw_extra_def and_then_def split: option.splits sum.splits)

lemma to_image_not_obj: "(\<And>kvs. data \<noteq> JObj kvs) \<Longrightarrow> \<exists>e. to_image self data = Inl e"
  by (subst to_image.simps, cases data)
     (auto simp: and_then_def split: sum.splits)

lemma map_of_raw_extra:
  "map_of (raw_extra kvs) k =
     (if k \<in> set image_extra_keys then map_option Raw (map_of kvs k) else None)"
proof -
  have "map_of (map (\<lambda>kv. (fst kv, Raw (snd kv))) xs) k = map_option Raw (map_of xs k)"
    for xs :: "(string \<times> json) list"
    by (induction xs) auto
  then show ?thesis
    by (simp add: raw_extra_def map_of_map_filter_keys)
qed

lemma keys_raw_extra: "fst ` set (raw_extra kvs) = set image_extra_keys \<inter> dom (map_of kvs)"
proof -
  have "fst ` set (map (\<lambda>kv. (fst kv, Raw (snd kv))) xs) = fst ` set xs"
    for xs :: "(string \<times> json) list"
    by (induction xs) auto
  then show ?thesis
    by (simp only: raw_extra_def fst_set_map_filter_keys)
qed

lemma map_fst_raw_extra:
  "map fst (raw_extra kvs) = filter (\<lambda>k. map_of kvs k \<noteq> None) image_extra_keys"
  by (simp add: raw_extra_def comp_def map_fst_map_filter_keys)

lemma ancestor_allowed: "''ancestor'' \<in> set image_extra_keys"
  by (simp add: image_extra_keys_def)

lemma distinct_node_extra_keys: "distinct node_extra_keys"
  by (simp add: node_extra_keys_def)

lemma distinct_image_extra_keys: "distinct image_extra_keys"
  by (simp add: image_extra_keys_def)

lemma to_image_Inr_obj:
  assumes "to_image self data = Inr img"
  shows "\<exists>kvs. data = JObj kvs"
  using assms to_image_not_obj [of data self] by auto

lemma to_image_obj_Inr:
  assumes "to_image self (JObj kvs) = Inr img"
  shows "map_of kvs ''id'' = Some (image_id img) \<and> map_of kvs ''name'' = Some (image_name img) \<and>
         image_driver img = self_ref self \<and>
         (case map_of kvs ''ancestor'' of
            None \<Rightarrow> image_extra img = raw_extra kvs
          | Some a \<Rightarrow>
              if a = JNull then image_extra img = raw_extra kvs
              else \<exists>anc. to_image self a = Inr anc \<and>
                     image_extra img = AList.update ''ancestor'' (Img anc) (raw_extra kvs))"
  using assms
  by (subst (asm) to_image_obj)
     (auto simp: and_then_eq_Inr split: option.splits if_splits)

lemma raw_extra_drop_key:
  assumes "k \<notin> set image_extra_keys"
  shows "raw_extra (filter (\<lambda>kv. fst kv \<noteq> k) kvs) = raw_extra kvs"
  unfolding raw_extra_def using assms
  by (auto intro!: arg_cong [where f = "map _"] map_filter_keys_cong map_of_filter_other)

lemma to_image_drop_key:
  assumes "k \<notin> set image_extra_keys" and "k \<notin> {''id'', ''name''}"
  shows "to_image self (JObj (filter (\<lambda>kv. fst kv \<noteq> k) kvs)) = to_image self (JObj kvs)"
proof -
  have "''ancestor'' \<noteq> k" "''id'' \<noteq> k" "''name'' \<noteq> k"
    using assms ancestor_allowed by auto
  then have "map_of (filter (\<lambda>kv. fst kv \<noteq> k) kvs) ''ancestor'' = map_of kvs ''ancestor''"
    "map_of (filter (\<lambda>kv. fst kv \<noteq> k) kvs) ''id'' = map_of kvs ''id''"
    "map_of (filter (\<lambda>kv. fst kv \<noteq> k) kvs) ''name'' = map_of kvs ''name''"
    by (simp_all add: map_of_filter_other)
  then show ?thesis
    by (simp only: to_image_obj raw_extra_drop_key [OF assms(1)] py_getitem.simps)
qed

lemma to_image_missing:
  assumes "k \<in> {''id'', ''name''}" and "py_getitem data k = Inl KeyError"
  shows "\<exists>e. to_image self data = Inl e"
proof (cases "to_image self data")
  case (Inr img)
  from to_image_Inr_obj [OF Inr] obtain kvs where d: "data = JObj kvs" ..
  from to_image_obj_Inr [OF Inr [unfolded d]] assms show ?thesis
    unfolding d by auto
qed simp

lemma to_image_self_ref:
  "self_ref s1 = self_ref s2 \<Longrightarrow> to_image s1 data = to_image s2 data"
proof (induction s1 data rule: to_image.induct)
  case (1 self data)
  show ?case
    apply (subst to_image.simps)
    apply (subst (2) to_image.simps)
    using 1
    apply (auto split: sum.splits)
    done
qed

subsection \<open>The node, size and location normalizers\<close>

lemma NODE_STATE_MAP_getitem_undocumented:
  "s \<notin> {''creating'', ''active'', ''inactive'', ''deleting'', ''deleted'', ''failed'', ''unavailable''}
   \<Longrightarrow> NODE_STATE_MAP_getitem (JStr s) = Inl KeyError"
  by (simp add: NODE_STATE_MAP_def)

lemma to_node_status_KeyError:
  assumes "py_getitem data ''status'' = Inr st" and "NODE_STATE_MAP_getitem st = Inl KeyError"
  shows "to_node self data = Inl KeyError"
proof -
  from assms(1) obtain kvs where d: "data = JObj kvs"
    by (auto dest: py_getitem_Inr_obj)
  show ?thesis
    using assms unfolding d to_node_def
    by (simp split: option.splits)
qed

lemma to_node_Inr_obj:
  assumes "to_node self data = Inr node"
  shows "\<exists>kvs. data = JObj kvs \<and>
           map_of kvs ''id'' \<noteq> None \<and> map_of kvs ''name'' \<noteq> None \<and> map_of kvs ''status'' \<noteq> None \<and>
           map_of kvs ''interfaces'' \<noteq> None \<and> map_of kvs ''cloud_ips'' \<noteq> None \<and>
           map_of kvs ''server_type'' \<noteq> None \<and> map_of kvs ''image'' \<noteq> None \<and>
           node_extra node =
             List.map_filter (\<lambda>k. map_option (Pair k) (map_of kvs k)) node_extra_keys"
proof -
  from assms obtain i where "py_getitem data ''id'' = Inr i"
    by (auto simp: to_node_def and_then_eq_Inr)
  then obtain kvs where d: "data = JObj kvs"
    by (auto dest: py_getitem_Inr_obj)
  from assms show ?thesis
    unfolding d to_node_def
    by (auto simp: and_then_eq_Inr extract_obj split: option.splits)
qed

lemma to_size_obj_KeyError:
  assumes "k \<in> {''id'', ''name'', ''ram'', ''disk_size''}" and "py_getitem data k = Inl KeyError"
  shows "to_size self data = Inl KeyError"
proof -
  from assms(2) obtain kvs where d: "data = JObj kvs"
    by (cases data) simp_all
  from assms show ?thesis
    unfolding d to_size_def
    by (auto split: option.splits)
qed

lemma to_location_obj_KeyError:
  assumes "k \<in> {''id'', ''handle''}" and "py_getitem data k = Inl KeyError"
  shows "to_location self data = Inl KeyError"
proof -
  from assms(2) obtain kvs where d: "data = JObj kvs"
    by (cases data) simp_all
  from assms show ?thesis
    unfolding d to_location_def
    by (auto split: option.splits)
qed

lemma to_node_missing:
  assumes "k \<in> {''id'', ''name'', ''status'', ''interfaces'', ''cloud_ips'', ''server_type'', ''image''}"
      and "py_getitem data k = Inl KeyError"
  shows "\<exists>e. to_node self data = Inl e"
proof (cases "to_node self data")
  case (Inr node)
  from to_node_Inr_obj [OF Inr] assms show ?thesis
    by auto
qed simp

lemma to_node_drop_key:
  assumes "k \<notin> set node_extra_keys"
      and "k \<notin> {''id'', ''name'', ''cloud_ips'', ''server_type'', ''image''}"
  shows "to_node self (JObj (filter (\<lambda>kv. fst kv \<noteq> k) kvs)) = to_node self (JObj kvs)"
proof -
  have ex: "extract' (JObj (filter (\<lambda>kv. fst kv \<noteq> k) kvs)) node_extra_keys =
            extract' (JObj kvs) node_extra_keys"
    unfolding extract_obj using assms(1)
    by (auto intro!: map_filter_keys_cong map_of_filter_other)
  have "k \<noteq> ''status''" "k \<noteq> ''interfaces''"
    using assms(1) by (auto simp: node_extra_keys_def)
  with assms(2) have get: "py_getitem (JObj (filter (\<lambda>kv. fst kv \<noteq> k) kvs)) k' = py_getitem (JObj kvs) k'"
    if "k' \<in> {''id'', ''name'', ''status'', ''interfaces'', ''cloud_ips'', ''server_type'', ''image''}" for k'
    using that by (auto simp: map_of_filter_other)
  show ?thesis
    unfolding to_node_def by (simp only: ex get insertI1 insertI2)
qed

lemma to_size_self_ref:
  "self_ref s1 = self_ref s2 \<Longrightarrow> to_size s1 data = to_size s2 data"
  by (simp add: to_size_def)

lemma to_node_self_ref:
  assumes "self_ref s1 = self_ref s2"
      and "conn_driver (connection s1) = conn_driver (connection s2)"
  shows "to_node s1 data = to_node s2 data"
proof -
  have "to_size s1 = to_size s2"
    by (rule ext) (rule to_size_self_ref [OF assms(1)])
  moreover have "to_image s1 = to_image s2"
    by (rule ext) (rule to_image_self_ref [OF assms(1)])
  ultimately show ?thesis
    unfolding to_node_def by (simp only: assms(2))
qed

subsection \<open>Requests\<close>

lemma sent_request:
  "sent (connection (snd (request self r))) = sent (connection self) @ [r]"
  by (simp add: request_def conn_request_def)

lemma fst_request:
  "fst (request self r) = respond (connection self) (sent (connection self)) r"
  by (simp add: request_def conn_request_def)

lemma refs_request:
  "self_ref (snd (request self r)) = self_ref self \<and>
   conn_driver (connection (snd (request self r))) = conn_driver (connection self)"
  by (simp add: request_def conn_request_def)

lemma list_nodes_request:
  "snd (list_nodes self) = snd (request self (get_request (''/%s/servers'', [JStr API_VERSION])))"
  "fst (list_nodes self) =
     and_then (fst (request self (get_request (''/%s/servers'', [JStr API_VERSION])))) (\<lambda>resp.
       and_then (py_iter (resp_object resp))
         (map_raising (to_node (snd (request self (get_request (''/%s/servers'', [JStr API_VERSION])))))))"
  by (simp_all add: list_nodes_def split_beta)

lemma list_sizes_request:
  "snd (list_sizes self) = snd (request self (get_request (''/%s/server_types'', [JStr API_VERSION])))"
  "fst (list_sizes self) =
     and_then (fst (request self (get_request (''/%s/server_types'', [JStr API_VERSION])))) (\<lambda>resp.
       and_then (py_iter (resp_object resp))
         (map_raising (to_size (snd (request self (get_request (''/%s/server_types'', [JStr API_VERSION])))))))"
  by (simp_all add: list_sizes_def split_beta)

lemma list_nodes_missing:
  assumes "respond (connection self) (sent (connection self))
          (get_request (''/%s/servers'', [JStr API_VERSION])) = Inr resp"
      and "py_iter (resp_object resp) = Inr xs" and "data \<in> set xs"
      and "k \<in> {''id'', ''name'', ''status'', ''interfaces'', ''cloud_ips'', ''server_type'', ''image''}"
      and "py_getitem data k = Inl KeyError"
  shows "\<exists>e. fst (list_nodes self) = Inl e"
proof -
  let ?r = "get_request (''/%s/servers'', [JStr API_VERSION])"
  from to_node_missing [OF assms(4,5), of "snd (request self ?r)"]
  obtain e where "to_node (snd (request self ?r)) data = Inl e" ..
  from map_raising_Inl [of data xs "to_node (snd (request self ?r))", OF assms(3) this]
  obtain e' where "map_raising (to_node (snd (request self ?r))) xs = Inl e'" ..
  then have "fst (list_nodes self) = Inl e'"
    by (simp add: list_nodes_request fst_request assms(1,2))
  then show ?thesis ..
qed

lemma list_sizes_missing:
  assumes "respond (connection self) (sent (connection self))
          (get_request (''/%s/server_types'', [JStr API_VERSION])) = Inr resp"
      and "py_iter (resp_object resp) = Inr xs" and "data \<in> set xs"
      and "k \<in> {''id'', ''name'', ''ram'', ''disk_size''}"
      and "py_getitem data k = Inl KeyError"
  shows "\<exists>e. fst (list_sizes self) = Inl e"
proof -
  let ?r = "get_request (''/%s/server_types'', [JStr API_VERSION])"
  from to_size_obj_KeyError [OF assms(4,5), of "snd (request self ?r)"]
  have "to_size (snd (request self ?r)) data = Inl KeyError" .
  from map_raising_Inl [of data xs "to_size (snd (request self ?r))", OF assms(3) this]
  obtain e' where "map_raising (to_size (snd (request self ?r))) xs = Inl e'" ..
  then have "fst (list_sizes self) = Inl e'"
    by (simp add: list_sizes_request fst_request assms(1,2))
  then show ?thesis ..
qed

lemma list_sent:
  "sent (connection (snd (list_nodes self))) =
     sent (connection self) @ [get_request (''/%s/servers'', [JStr API_VERSION])]"
  "sent (connection (snd (list_sizes self))) =
     sent (connection self) @ [get_request (''/%s/server_types'', [JStr API_VERSION])]"
  by (simp_all only: list_nodes_request list_sizes_request sent_request)

lemma create_node_data_Inr:
  assumes "kw_name kwargs = Some n" and "kw_size kwargs = Some sz" and "kw_image kwargs = Some im"
  shows "create_node_data kwargs =
     Inr [(''name'', n), (''server_type'', size_id sz), (''image'', image_id im),
          (''user_data'', JStr ''''),
          (''zone'', case kw_location kwargs of Some loc \<Rightarrow> location_id loc | None \<Rightarrow> JStr '''')]"
  by (simp add: create_node_data_def assms)

subsection \<open>The sample data, normalized\<close>

lemma example_refs:
  "self_ref example_driver = 1" "conn_driver (connection example_driver) = 1"
  by (simp_all add: example_driver_def example_connection_def)

lemma example_to_size: "to_size example_driver example_size_payload = Inr example_size"
  by (simp add: to_size_def example_size_payload_def example_size_def example_refs)

lemma example_raw_extra_ancestor:
  "raw_extra [(''id'', JStr ''img-9vxqi''), (''url'', JStr ''images/img-9vxqi''),
           (''name'', JStr ''Brightbox Lucid 32''), (''ancestor'', JNull),
           (''arch'', JStr ''i686'')] = [(''ancestor'', Raw JNull), (''arch'', Raw (JStr ''i686''))]"
  by (simp add: raw_extra_def image_extra_keys_def)

lemma example_to_image_ancestor:
  "to_image example_driver example_ancestor_payload = Inr example_ancestor"
  by (simp add: example_ancestor_payload_def to_image_obj example_raw_extra_ancestor
      example_ancestor_def example_refs)

lemma example_ancestor_payload_not_null: "example_ancestor_payload \<noteq> JNull"
  by (simp add: example_ancestor_payload_def)

lemma example_to_image: "to_image example_driver example_image_payload = Inr example_image"
  unfolding example_image_payload_def example_image_fields_def
  by (subst to_image_obj)
     (simp add: example_to_image_ancestor raw_extra_def image_extra_keys_def
        example_ancestor_payload_not_null example_image_def example_refs)

lemma example_to_image_plain:
  "to_image example_driver example_plain_image_payload = Inr example_plain_image"
  by (simp add: example_plain_image_payload_def to_image_obj raw_extra_def image_extra_keys_def
      example_plain_image_def example_refs)

lemma example_to_node: "to_node example_driver example_server = Inr example_node"
  by (simp add: to_node_def example_server_def example_server_fields_def
      example_to_size example_to_image getitem_where_present_objs
      example_interfaces_def example_cloud_ips_def node_extra_keys_def
      NODE_STATE_MAP_def example_node_def example_refs)

lemma example_server_fields_active: "example_server = JObj (example_server_fields ''active'')"
  by (simp add: example_server_def)

lemma example_image_payload_fields: "example_image_payload = JObj example_image_fields"
  by (rule example_image_payload_def)

section \<open>The claims\<close>

subsection \<open>C1: order of the IP addresses of a node\<close>

text \<open>Claim C1. For a server payload whose \<^verbatim>\<open>interfaces\<close> is a list of objects and whose
  \<^verbatim>\<open>cloud_ips\<close> is a list of objects, the Node that \<open>to_node\<close> produces has as
  \<open>public_ips\<close> the \<^verbatim>\<open>public_ip\<close> value of every \<^verbatim>\<open>cloud_ips\<close> entry, in input order,
  followed by the \<^verbatim>\<open>ipv6_address\<close> values of the interfaces that have that key, in input
  order; its \<open>private_ips\<close> are the \<^verbatim>\<open>ipv4_address\<close> values of the interfaces that have
  that key, in input order.\<close>

theorem to_node_ip_order:
  assumes "py_getitem data ''interfaces'' = Inr (JList (map JObj ifaces))"
      and "py_getitem data ''cloud_ips'' = Inr (JList (map JObj cips))"
      and "to_node self data = Inr node"
  shows "(\<exists>cloud. map (\<lambda>c. map_of c ''public_ip'') cips = map Some cloud \<and>
            public_ips node = cloud @ List.map_filter (\<lambda>i. map_of i ''ipv6_address'') ifaces) \<and>
         private_ips node = List.map_filter (\<lambda>i. map_of i ''ipv4_address'') ifaces"
  using assms
  by (auto simp: to_node_def and_then_eq_Inr getitem_where_present_objs dest: getitem_each_objs)

theorem to_node_ip_order_witness:
  "py_getitem example_server ''interfaces'' = Inr (JList (map JObj example_interfaces)) \<and>
   py_getitem example_server ''cloud_ips'' = Inr (JList (map JObj example_cloud_ips)) \<and>
   to_node example_driver example_server = Inr example_node \<and>
   public_ips example_node =
     [JStr ''109.107.35.16'', JStr ''2a02:1348:14c:393a:24:19ff:fef0:e4ea'',
      JStr ''2a02:1348:14c:393a:24:19ff:fef0:e4eb''] \<and>
   private_ips example_node = [JStr ''10.74.210.210'', JStr ''10.240.228.234'']"
proof -
  have h1: "py_getitem example_server ''interfaces'' = Inr (JList (map JObj example_interfaces))"
    and h2: "py_getitem example_server ''cloud_ips'' = Inr (JList (map JObj example_cloud_ips))"
    by (simp_all add: example_server_def example_server_fields_def)
  from to_node_ip_order [OF h1 h2 example_to_node] h1 h2 example_to_node show ?thesis
    by (auto simp: example_interfaces_def example_cloud_ips_def)
qed

subsection \<open>C2: the status mapper\<close>

text \<open>Claim C2. On the seven documented status strings the lookup in \<open>NODE_STATE_MAP\<close>
  returns the state of the table: creating to PENDING, active to RUNNING, deleted to
  TERMINATED, and inactive, deleting, failed and unavailable to UNKNOWN. On every other
  string the lookup raises KeyError, and \<open>to_node\<close> on a payload with such a status raises
  it too: no default state is returned. The state of a Node that \<open>to_node\<close> produces is
  the one the lookup gives for the payload's status.\<close>

theorem status_mapper_table:
  "NODE_STATE_MAP_getitem (JStr ''creating'') = Inr PENDING \<and>
   NODE_STATE_MAP_getitem (JStr ''active'') = Inr RUNNING \<and>
   NODE_STATE_MAP_getitem (JStr ''inactive'') = Inr UNKNOWN \<and>
   NODE_STATE_MAP_getitem (JStr ''deleting'') = Inr UNKNOWN \<and>
   NODE_STATE_MAP_getitem (JStr ''deleted'') = Inr TERMINATED \<and>
   NODE_STATE_MAP_getitem (JStr ''failed'') = Inr UNKNOWN \<and>
   NODE_STATE_MAP_getitem (JStr ''unavailable'') = Inr UNKNOWN \<and>
   (\<forall>s. s \<notin> {''creating'', ''active'', ''inactive'', ''deleting'', ''deleted'', ''failed'',
              ''unavailable''} \<longrightarrow>
        NODE_STATE_MAP_getitem (JStr s) = Inl KeyError \<and>
        (\<forall>self data. py_getitem data ''status'' = Inr (JStr s) \<longrightarrow>
           to_node self data = Inl KeyError)) \<and>
   (\<forall>self data s node. py_getitem data ''status'' = Inr (JStr s) \<longrightarrow>
        to_node self data = Inr node \<longrightarrow> NODE_STATE_MAP_getitem (JStr s) = Inr (node_state node))"
proof -
  have table: "NODE_STATE_MAP_getitem (JStr ''creating'') = Inr PENDING"
    "NODE_STATE_MAP_getitem (JStr ''active'') = Inr RUNNING"
    "NODE_STATE_MAP_getitem (JStr ''inactive'') = Inr UNKNOWN"
    "NODE_STATE_MAP_getitem (JStr ''deleting'') = Inr UNKNOWN"
    "NODE_STATE_MAP_getitem (JStr ''deleted'') = Inr TERMINATED"
    "NODE_STATE_MAP_getitem (JStr ''failed'') = Inr UNKNOWN"
    "NODE_STATE_MAP_getitem (JStr ''unavailable'') = Inr UNKNOWN"
    by (simp_all add: NODE_STATE_MAP_def)
  have st: "NODE_STATE_MAP_getitem (JStr s) = Inr (node_state node)"
    if "py_getitem data ''status'' = Inr (JStr s)" "to_node self data = Inr node"
    for self data s node
    using that by (auto simp: to_node_def and_then_eq_Inr)
  show ?thesis
    using table NODE_STATE_MAP_getitem_undocumented to_node_status_KeyError st
    by (intro conjI allI impI) auto
qed

theorem status_mapper_table_witness:
  "''rebooting'' \<notin> {''creating'', ''active'', ''inactive'', ''deleting'', ''deleted'', ''failed'',
      ''unavailable''} \<and>
   NODE_STATE_MAP_getitem (JStr ''rebooting'') = Inl KeyError \<and>
   py_getitem (JObj (example_server_fields ''rebooting'')) ''status'' = Inr (JStr ''rebooting'') \<and>
   to_node example_driver (JObj (example_server_fields ''rebooting'')) = Inl KeyError \<and>
   py_getitem example_server ''status'' = Inr (JStr ''active'') \<and>
   to_node example_driver example_server = Inr example_node \<and>
   NODE_STATE_MAP_getitem (JStr ''active'') = Inr (node_state example_node)"
proof -
  have a: "''rebooting'' \<notin> {''creating'', ''active'', ''inactive'', ''deleting'', ''deleted'',
      ''failed'', ''unavailable''}"
    by simp
  have b: "py_getitem (JObj (example_server_fields ''rebooting'')) ''status'' = Inr (JStr ''rebooting'')"
    and c: "py_getitem example_server ''status'' = Inr (JStr ''active'')"
    by (simp_all add: example_server_def example_server_fields_def)
  note rest = status_mapper_table [THEN conjunct2, THEN conjunct2, THEN conjunct2,
      THEN conjunct2, THEN conjunct2, THEN conjunct2, THEN conjunct2]
  note undocumented = rest [THEN conjunct1, THEN spec, THEN mp, OF a]
  note raised = undocumented [THEN conjunct2, THEN spec, THEN spec, THEN mp, OF b]
  note mapped = rest [THEN conjunct2, THEN spec, THEN spec, THEN spec, THEN spec,
      THEN mp, THEN mp, OF c example_to_node]
  show ?thesis
    by (intro conjI)
       (rule a undocumented [THEN conjunct1] b raised c example_to_node mapped)+
qed

subsection \<open>C3: the ancestor of an image\<close>

text \<open>Claim C3 as it is stated says that an image payload without an \<^verbatim>\<open>ancestor\<close> field
  gets a null \<^verbatim>\<open>ancestor\<close> entry in its extension bag. \<^verbatim>\<open>_extract\<close> copies only the keys
  that the payload has, so the bag of such an image has no \<^verbatim>\<open>ancestor\<close> entry at all: the
  sample image \<^verbatim>\<open>img-j93gd\<close> shows it.\<close>

theorem to_image_absent_ancestor_counterexample:
  "py_getitem example_plain_image_payload ''ancestor'' = Inl KeyError \<and>
   to_image example_driver example_plain_image_payload = Inr example_plain_image \<and>
   map_of (image_extra example_plain_image) ''ancestor'' \<noteq> Some (Raw JNull) \<and>
   ''ancestor'' \<notin> fst ` set (image_extra example_plain_image)"
  by (simp add: example_to_image_plain)
     (simp add: example_plain_image_payload_def example_plain_image_def)

text \<open>Claim C3, amended. For an image payload: when \<^verbatim>\<open>ancestor\<close> is present and not null,
  the \<^verbatim>\<open>ancestor\<close> entry of the extension bag of the produced image is the image that
  \<open>to_image\<close> produces from the ancestor, in place of the raw value, and the image is
  produced whenever the ancestor normalizes and \<^verbatim>\<open>id\<close> and \<^verbatim>\<open>name\<close> are present; when
  \<^verbatim>\<open>ancestor\<close> is present and null, the entry is the null value; when \<^verbatim>\<open>ancestor\<close> is
  absent, the bag has no \<^verbatim>\<open>ancestor\<close> entry; and in the last two cases normalization
  succeeds when \<^verbatim>\<open>id\<close> and \<^verbatim>\<open>name\<close> are present.\<close>

theorem to_image_ancestor:
  "(\<forall>a img. py_getitem data ''ancestor'' = Inr a \<longrightarrow> a \<noteq> JNull \<longrightarrow> to_image self data = Inr img \<longrightarrow>
      (\<exists>anc. to_image self a = Inr anc \<and> map_of (image_extra img) ''ancestor'' = Some (Img anc))) \<and>
   (\<forall>a anc i n. py_getitem data ''ancestor'' = Inr a \<longrightarrow> a \<noteq> JNull \<longrightarrow> to_image self a = Inr anc \<longrightarrow>
      py_getitem data ''id'' = Inr i \<longrightarrow> py_getitem data ''name'' = Inr n \<longrightarrow>
      (\<exists>img. to_image self data = Inr img \<and> map_of (image_extra img) ''ancestor'' = Some (Img anc))) \<and>
   (\<forall>i n. py_getitem data ''ancestor'' = Inr JNull \<longrightarrow>
      py_getitem data ''id'' = Inr i \<longrightarrow> py_getitem data ''name'' = Inr n \<longrightarrow>
      (\<exists>img. to_image self data = Inr img \<and> map_of (image_extra img) ''ancestor'' = Some (Raw JNull))) \<and>
   (\<forall>i n. py_getitem data ''ancestor'' = Inl KeyError \<longrightarrow>
      py_getitem data ''id'' = Inr i \<longrightarrow> py_getitem data ''name'' = Inr n \<longrightarrow>
      (\<exists>img. to_image self data = Inr img \<and> map_of (image_extra img) ''ancestor'' = None))"
proof (cases data)
  case (JObj kvs)
  have present: "\<exists>anc. to_image self a = Inr anc \<and> map_of (image_extra img) ''ancestor'' = Some (Img anc)"
    if "map_of kvs ''ancestor'' = Some a" "a \<noteq> JNull" "to_image self (JObj kvs) = Inr img" for a img
    using to_image_obj_Inr [OF that(3)] that(1,2)
    by (auto simp: update_conv')
  have built: "\<exists>img. to_image self (JObj kvs) = Inr img \<and> map_of (image_extra img) ''ancestor'' = Some (Img anc)"
    if "map_of kvs ''ancestor'' = Some a" "a \<noteq> JNull" "to_image self a = Inr anc"
       "map_of kvs ''id'' = Some i" "map_of kvs ''name'' = Some n" for a anc i n
    using that by (subst to_image_obj) (simp add: update_conv')
  have null: "\<exists>img. to_image self (JObj kvs) = Inr img \<and> map_of (image_extra img) ''ancestor'' = Some (Raw JNull)"
    if "map_of kvs ''ancestor'' = Some JNull" "map_of kvs ''id'' = Some i" "map_of kvs ''name'' = Some n" for i n
    using that by (subst to_image_obj) (simp add: map_of_raw_extra ancestor_allowed)
  have absent: "\<exists>img. to_image self (JObj kvs) = Inr img \<and> map_of (image_extra img) ''ancestor'' = None"
    if "map_of kvs ''ancestor'' = None" "map_of kvs ''id'' = Some i" "map_of kvs ''name'' = Some n" for i n
    using that by (subst to_image_obj) (simp add: map_of_raw_extra ancestor_allowed)
  show ?thesis
    unfolding JObj py_getitem_obj_Inr
    using present built null absent
    by (simp split: option.splits) blast
qed simp_all

theorem to_image_ancestor_witness:
  "py_getitem example_image_payload ''ancestor'' = Inr example_ancestor_payload \<and>
   example_ancestor_payload \<noteq> JNull \<and>
   to_image example_driver example_ancestor_payload = Inr example_ancestor \<and>
   to_image example_driver example_image_payload = Inr example_image \<and>
   map_of (image_extra example_image) ''ancestor'' = Some (Img example_ancestor) \<and>
   py_getitem example_ancestor_payload ''ancestor'' = Inr JNull \<and>
   map_of (image_extra example_ancestor) ''ancestor'' = Some (Raw JNull) \<and>
   py_getitem example_plain_image_payload ''ancestor'' = Inl KeyError \<and>
   to_image example_driver example_plain_image_payload = Inr example_plain_image \<and>
   map_of (image_extra example_plain_image) ''ancestor'' = None"
proof -
  have a: "py_getitem example_image_payload ''ancestor'' = Inr example_ancestor_payload"
    by (simp add: example_image_payload_def example_image_fields_def)
  have b: "py_getitem example_ancestor_payload ''ancestor'' = Inr JNull"
    "py_getitem example_ancestor_payload ''id'' = Inr (JStr ''img-9vxqi'')"
    "py_getitem example_ancestor_payload ''name'' = Inr (JStr ''Brightbox Lucid 32'')"
    by (simp_all add: example_ancestor_payload_def)
  have c: "py_getitem example_plain_image_payload ''ancestor'' = Inl KeyError"
    "py_getitem example_plain_image_payload ''id'' = Inr (JStr ''img-j93gd'')"
    "py_getitem example_plain_image_payload ''name'' = Inr (JStr ''Upload'')"
    by (simp_all add: example_plain_image_payload_def)
  from to_image_ancestor [of example_image_payload example_driver]
    a example_ancestor_payload_not_null example_to_image example_to_image_ancestor
  have 1: "map_of (image_extra example_image) ''ancestor'' = Some (Img example_ancestor)"
    by auto
  from to_image_ancestor [of example_ancestor_payload example_driver] b example_to_image_ancestor
  have 2: "map_of (image_extra example_ancestor) ''ancestor'' = Some (Raw JNull)"
    by auto
  from to_image_ancestor [of example_plain_image_payload example_driver] c example_to_image_plain
  have 3: "map_of (image_extra example_plain_image) ''ancestor'' = None"
    by auto
  from 1 2 3 a b(1) c(1) example_ancestor_payload_not_null example_to_image
    example_to_image_ancestor example_to_image_plain
  show ?thesis by (intro conjI)
qed

subsection \<open>C4: the payload of create_node\<close>

text \<open>Claim C4. A call of \<open>create_node\<close> with a name, a size and an image sends exactly one
  request, a POST to the servers collection whose data is the dict with \<^verbatim>\<open>name\<close>,
  \<^verbatim>\<open>server_type\<close> (the id of the size), \<^verbatim>\<open>image\<close> (the id of the image), \<^verbatim>\<open>user_data\<close>
  (the empty string) and \<^verbatim>\<open>zone\<close>: the id of the location when one is given, the empty
  string otherwise, so the key is always there. The result is the body of the response,
  normalized by \<open>to_node\<close> (for a response of any status, 202 included); an exception of
  the connection is passed on.\<close>

theorem create_node_payload:
  assumes "kw_name kwargs = Some n" and "kw_size kwargs = Some sz" and "kw_image kwargs = Some im"
      and "r = \<lparr>req_path = (''/%s/servers'', [JStr ''1.0'']), req_method = Some ''POST'',
                req_data = Some [(''name'', n), (''server_type'', size_id sz),
                                 (''image'', image_id im), (''user_data'', JStr ''''),
                                 (''zone'', case kw_location kwargs of
                                              Some loc \<Rightarrow> location_id loc
                                            | None \<Rightarrow> JStr '''')],
                req_headers = Some [(''Content-Type'', ''application/json'')]\<rparr>"
  shows "sent (connection (snd (create_node self kwargs))) = sent (connection self) @ [r] \<and>
         (\<forall>resp. respond (connection self) (sent (connection self)) r = Inr resp \<longrightarrow>
            fst (create_node self kwargs) = to_node self (resp_object resp)) \<and>
         (\<forall>e. respond (connection self) (sent (connection self)) r = Inl e \<longrightarrow>
            fst (create_node self kwargs) = Inl e)"
proof -
  let ?p = "(''/%s/servers'', [JStr API_VERSION])"
  let ?d = "[(''name'', n), (''server_type'', size_id sz), (''image'', image_id im),
             (''user_data'', JStr ''''),
             (''zone'', case kw_location kwargs of Some loc \<Rightarrow> location_id loc | None \<Rightarrow> JStr '''')]"
  have r: "post self ?p ?d = request self r"
    by (simp add: post_def assms(4) API_VERSION_def)
  have c: "create_node self kwargs =
      (and_then (fst (request self r)) (\<lambda>resp. to_node (snd (request self r)) (resp_object resp)),
       snd (request self r))"
    by (simp add: create_node_def create_node_data_Inr [OF assms(1-3)] r split_beta)
  have n: "to_node (snd (request self r)) = to_node self"
    by (rule ext) (rule to_node_self_ref; simp add: refs_request)
  show ?thesis
    by (simp add: c n sent_request fst_request)
qed

theorem create_node_payload_witness:
  "kw_name example_kwargs = Some (JStr ''Test Node'') \<and>
   kw_size example_kwargs = Some example_size \<and>
   kw_image example_kwargs = Some example_image \<and>
   kw_location example_kwargs = None \<and>
   sent (connection (snd (create_node example_driver example_kwargs))) =
     sent (connection example_driver) @ [example_create_request (JStr '''')] \<and>
   respond (connection example_driver) (sent (connection example_driver))
     (example_create_request (JStr '''')) = Inr \<lparr>resp_status = 202, resp_object = example_server\<rparr> \<and>
   fst (create_node example_driver example_kwargs) = Inr example_node \<and>
   kw_location (example_kwargs\<lparr>kw_location := Some example_location\<rparr>) = Some example_location \<and>
   sent (connection (snd (create_node example_driver
       (example_kwargs\<lparr>kw_location := Some example_location\<rparr>)))) =
     sent (connection example_driver) @ [example_create_request (JStr ''zon-6mxqw'')]"
proof -
  let ?kw = "example_kwargs\<lparr>kw_location := Some example_location\<rparr>"
  have k: "kw_name example_kwargs = Some (JStr ''Test Node'')"
    "kw_size example_kwargs = Some example_size"
    "kw_image example_kwargs = Some example_image"
    and l: "kw_location example_kwargs = None"
    by (simp_all add: example_kwargs_def)
  have k': "kw_name ?kw = Some (JStr ''Test Node'')" "kw_size ?kw = Some example_size"
    "kw_image ?kw = Some example_image"
    and l': "kw_location ?kw = Some example_location"
    by (simp_all add: example_kwargs_def)
  have r: "example_create_request (JStr '''') =
      \<lparr>req_path = (''/%s/servers'', [JStr ''1.0'']), req_method = Some ''POST'',
       req_data = Some [(''name'', JStr ''Test Node''), (''server_type'', size_id example_size),
                        (''image'', image_id example_image), (''user_data'', JStr ''''),
                        (''zone'', case kw_location example_kwargs of
                                     Some loc \<Rightarrow> location_id loc
                                   | None \<Rightarrow> JStr '''')],
       req_headers = Some [(''Content-Type'', ''application/json'')]\<rparr>"
    by (simp add: example_create_request_def example_size_def example_image_def l)
  have r': "example_create_request (JStr ''zon-6mxqw'') =
      \<lparr>req_path = (''/%s/servers'', [JStr ''1.0'']), req_method = Some ''POST'',
       req_data = Some [(''name'', JStr ''Test Node''), (''server_type'', size_id example_size),
                        (''image'', image_id example_image), (''user_data'', JStr ''''),
                        (''zone'', case kw_location ?kw of
                                     Some loc \<Rightarrow> location_id loc
                                   | None \<Rightarrow> JStr '''')],
       req_headers = Some [(''Content-Type'', ''application/json'')]\<rparr>"
    by (simp add: example_create_request_def example_size_def example_image_def l'
        example_location_def)
  have resp: "respond (connection example_driver) (sent (connection example_driver))
     (example_create_request (JStr '''')) = Inr \<lparr>resp_status = 202, resp_object = example_server\<rparr>"
    by (simp add: example_driver_def example_connection_def example_create_request_def)
  note t = create_node_payload [OF k r, of example_driver]
  note t' = create_node_payload [OF k' r', of example_driver]
  have res: "fst (create_node example_driver example_kwargs) = Inr example_node"
    using t [THEN conjunct2, THEN conjunct1, THEN spec, THEN mp, OF resp]
    by (simp add: example_to_node)
  show ?thesis
    by (intro conjI) (rule k l l' t [THEN conjunct1] t' [THEN conjunct1] resp res)+
qed

subsection \<open>C5: the success codes of the mutations\<close>

text \<open>Claim C5. Each of \<open>destroy_node\<close>, \<open>ex_map_cloud_ip\<close>, \<open>ex_unmap_cloud_ip\<close> and
  \<open>ex_destroy_cloud_ip\<close> sends exactly one request and, whatever the status of the
  response, returns whether that status is the operation's success code: 202 for the
  first three, 200 for \<open>ex_destroy_cloud_ip\<close>. No later request decides the result.\<close>

theorem mutation_success_codes:
  "(\<forall>resp. respond (connection self) (sent (connection self))
             (delete_request (''/%s/servers/%s'', [JStr ''1.0'', node_id node])) = Inr resp \<longrightarrow>
      fst (destroy_node self node) = Inr (resp_status resp = 202)) \<and>
   sent (connection (snd (destroy_node self node))) =
     sent (connection self) @ [delete_request (''/%s/servers/%s'', [JStr ''1.0'', node_id node])] \<and>
   (\<forall>resp. respond (connection self) (sent (connection self))
             \<lparr>req_path = (''/%s/cloud_ips/%s/map'', [JStr ''1.0'', cloud_ip_id]),
              req_method = Some ''POST'', req_data = Some [(''interface'', interface_id)],
              req_headers = Some [(''Content-Type'', ''application/json'')]\<rparr> = Inr resp \<longrightarrow>
      fst (ex_map_cloud_ip self cloud_ip_id interface_id) = Inr (resp_status resp = 202)) \<and>
   sent (connection (snd (ex_map_cloud_ip self cloud_ip_id interface_id))) =
     sent (connection self) @
       [\<lparr>req_path = (''/%s/cloud_ips/%s/map'', [JStr ''1.0'', cloud_ip_id]),
         req_method = Some ''POST'', req_data = Some [(''interface'', interface_id)],
         req_headers = Some [(''Content-Type'', ''application/json'')]\<rparr>] \<and>
   (\<forall>resp. respond (connection self) (sent (connection self))
             \<lparr>req_path = (''/%s/cloud_ips/%s/unmap'', [JStr ''1.0'', cloud_ip_id]),
              req_method = Some ''POST'', req_data = Some [],
              req_headers = Some [(''Content-Type'', ''application/json'')]\<rparr> = Inr resp \<longrightarrow>
      fst (ex_unmap_cloud_ip self cloud_ip_id) = Inr (resp_status resp = 202)) \<and>
   sent (connection (snd (ex_unmap_cloud_ip self cloud_ip_id))) =
     sent (connection self) @
       [\<lparr>req_path = (''/%s/cloud_ips/%s/unmap'', [JStr ''1.0'', cloud_ip_id]),
         req_method = Some ''POST'', req_data = Some [],
         req_headers = Some [(''Content-Type'', ''application/json'')]\<rparr>] \<and>
   (\<forall>resp. respond (connection self) (sent (connection self))
             (delete_request (''/%s/cloud_ips/%s'', [JStr ''1.0'', cloud_ip_id])) = Inr resp \<longrightarrow>
      fst (ex_destroy_cloud_ip self cloud_ip_id) = Inr (resp_status resp = 200)) \<and>
   sent (connection (snd (ex_destroy_cloud_ip self cloud_ip_id))) =
     sent (connection self) @ [delete_request (''/%s/cloud_ips/%s'', [JStr ''1.0'', cloud_ip_id])]"
  by (simp add: destroy_node_def ex_map_cloud_ip_def ex_unmap_cloud_ip_def ex_destroy_cloud_ip_def
      post_def split_beta sent_request fst_request API_VERSION_def ACCEPTED_def OK_def)

theorem mutation_success_codes_witness:
  "respond (connection example_driver) (sent (connection example_driver))
     (delete_request (''/%s/servers/%s'', [JStr ''1.0'', node_id example_node])) =
     Inr \<lparr>resp_status = 202, resp_object = JNull\<rparr> \<and>
   fst (destroy_node example_driver example_node) = Inr True \<and>
   fst (ex_map_cloud_ip example_driver (JStr ''cip-tlrp3'') (JStr ''int-ztqbx'')) = Inr True \<and>
   fst (ex_unmap_cloud_ip example_driver (JStr ''cip-tlrp3'')) = Inr True \<and>
   fst (ex_destroy_cloud_ip example_driver (JStr ''cip-tlrp3'')) = Inr False \<and>
   respond (connection example_driver_ok) (sent (connection example_driver_ok))
     (delete_request (''/%s/cloud_ips/%s'', [JStr ''1.0'', JStr ''cip-tlrp3''])) =
     Inr \<lparr>resp_status = 200,
          resp_object = JList [example_size_payload, example_incomplete_payload]\<rparr> \<and>
   fst (destroy_node example_driver_ok example_node) = Inr False \<and>
   fst (ex_destroy_cloud_ip example_driver_ok (JStr ''cip-tlrp3'')) = Inr True"
  using mutation_success_codes [of example_driver example_node "JStr ''cip-tlrp3''" "JStr ''int-ztqbx''"]
    mutation_success_codes [of example_driver_ok example_node "JStr ''cip-tlrp3''" "JStr ''int-ztqbx''"]
  by (simp add: example_driver_def example_connection_def example_driver_ok_def delete_request_def)

subsection \<open>C6: only allow-listed keys in an extension bag\<close>

text \<open>Claim C6. A key that is not on the allow-list of the entity (Node or Image) is not a
  key of the extension bag of the entity produced, whatever the payload holds. Such a
  field is dropped without an error: unless it is one of the fields the normalizer
  promotes to an attribute, the normalizer's result is the same as on the payload
  without the field.\<close>

theorem extension_bag_allow_list:
  "(\<forall>node. to_node self data = Inr node \<longrightarrow> k \<notin> set node_extra_keys \<longrightarrow>
      k \<notin> fst ` set (node_extra node)) \<and>
   (\<forall>img. to_image self data = Inr img \<longrightarrow> k \<notin> set image_extra_keys \<longrightarrow>
      k \<notin> fst ` set (image_extra img)) \<and>
   (\<forall>kvs. k \<notin> set node_extra_keys \<longrightarrow>
      k \<notin> {''id'', ''name'', ''cloud_ips'', ''server_type'', ''image''} \<longrightarrow>
      to_node self (JObj kvs) = to_node self (JObj (filter (\<lambda>kv. fst kv \<noteq> k) kvs))) \<and>
   (\<forall>kvs. k \<notin> set image_extra_keys \<longrightarrow> k \<notin> {''id'', ''name''} \<longrightarrow>
      to_image self (JObj kvs) = to_image self (JObj (filter (\<lambda>kv. fst kv \<noteq> k) kvs)))"
proof -
  have node: "k \<notin> fst ` set (node_extra node)"
    if "to_node self data = Inr node" "k \<notin> set node_extra_keys" for node
  proof -
    from to_node_Inr_obj [OF that(1)] obtain kvs where
      "node_extra node = List.map_filter (\<lambda>k. map_option (Pair k) (map_of kvs k)) node_extra_keys"
      by blast
    with that(2) show ?thesis
      by (simp only: fst_set_map_filter_keys) simp
  qed
  have image: "k \<notin> fst ` set (image_extra img)"
    if "to_image self data = Inr img" "k \<notin> set image_extra_keys" for img
  proof -
    from to_image_Inr_obj [OF that(1)] obtain kvs where d: "data = JObj kvs" ..
    have "image_extra img = raw_extra kvs \<or>
          (\<exists>anc. image_extra img = AList.update ''ancestor'' (Img anc) (raw_extra kvs))"
      using to_image_obj_Inr [OF that(1) [unfolded d]]
      by (auto split: option.splits if_splits)
    then have "fst ` set (image_extra img) \<subseteq> insert ''ancestor'' (fst ` set (raw_extra kvs))"
      by (elim disjE exE) (simp_all add: dom_update subset_insertI)
    with that(2) ancestor_allowed show ?thesis
      by (auto simp: keys_raw_extra)
  qed
  show ?thesis
    using node image to_node_drop_key [of k self] to_image_drop_key [of k self]
    by (intro conjI allI impI) simp_all
qed

theorem extension_bag_allow_list_witness:
  "''url'' \<notin> set node_extra_keys \<and> ''url'' \<notin> set image_extra_keys \<and>
   map_of (example_server_fields ''active'') ''url'' = Some (JStr ''servers/srv-xvpn7'') \<and>
   map_of example_image_fields ''url'' = Some (JStr ''images/img-99q79'') \<and>
   to_node example_driver example_server = Inr example_node \<and>
   ''url'' \<notin> fst ` set (node_extra example_node) \<and>
   to_image example_driver example_image_payload = Inr example_image \<and>
   ''url'' \<notin> fst ` set (image_extra example_image) \<and>
   to_node example_driver
     (JObj (filter (\<lambda>kv. fst kv \<noteq> ''url'') (example_server_fields ''active''))) = Inr example_node \<and>
   to_image example_driver
     (JObj (filter (\<lambda>kv. fst kv \<noteq> ''url'') example_image_fields)) = Inr example_image"
proof -
  have u1: "''url'' \<notin> set node_extra_keys" and u2: "''url'' \<notin> set image_extra_keys"
    by (simp_all add: node_extra_keys_def image_extra_keys_def)
  have u3: "''url'' \<notin> {''id'', ''name'', ''cloud_ips'', ''server_type'', ''image''}"
    and u4: "''url'' \<notin> {''id'', ''name''}"
    by simp_all
  have p1: "map_of (example_server_fields ''active'') ''url'' = Some (JStr ''servers/srv-xvpn7'')"
    and p2: "map_of example_image_fields ''url'' = Some (JStr ''images/img-99q79'')"
    by (simp_all add: example_server_fields_def example_image_fields_def)
  note n = extension_bag_allow_list [of example_driver example_server "''url''"]
  note i = extension_bag_allow_list [of example_driver example_image_payload "''url''"]
  note n1 = n [THEN conjunct1, THEN spec, THEN mp, THEN mp, OF example_to_node u1]
  note i1 = i [THEN conjunct2, THEN conjunct1, THEN spec, THEN mp, THEN mp, OF example_to_image u2]
  note n2 = n [THEN conjunct2, THEN conjunct2, THEN conjunct1, THEN spec, THEN mp, THEN mp,
      OF u1 u3, of "example_server_fields ''active''"]
  note i2 = n [THEN conjunct2, THEN conjunct2, THEN conjunct2, THEN spec, THEN mp, THEN mp,
      OF u2 u4, of example_image_fields]
  have n3: "to_node example_driver
     (JObj (filter (\<lambda>kv. fst kv \<noteq> ''url'') (example_server_fields ''active''))) = Inr example_node"
    using n2 example_to_node by (simp only: example_server_fields_active)
  have i3: "to_image example_driver
     (JObj (filter (\<lambda>kv. fst kv \<noteq> ''url'') example_image_fields)) = Inr example_image"
    using i2 example_to_image by (simp only: example_image_payload_fields)
  show ?thesis
    by (intro conjI) (rule u1 u2 p1 p2 example_to_node n1 example_to_image i1 n3 i3)+
qed

subsection \<open>C7: a missing required key\<close>

text \<open>Claim C7. When a payload is a dict that lacks a required key (\<^verbatim>\<open>id\<close>, \<^verbatim>\<open>name\<close>,
  \<^verbatim>\<open>status\<close>, \<^verbatim>\<open>interfaces\<close>, \<^verbatim>\<open>cloud_ips\<close>, \<^verbatim>\<open>server_type\<close> or \<^verbatim>\<open>image\<close> of a server;
  \<^verbatim>\<open>id\<close>, \<^verbatim>\<open>name\<close>, \<^verbatim>\<open>ram\<close> or \<^verbatim>\<open>disk_size\<close> of a server type; \<^verbatim>\<open>id\<close> or \<^verbatim>\<open>name\<close> of an
  image; \<^verbatim>\<open>id\<close> or \<^verbatim>\<open>handle\<close> of a zone), its normalizer raises and returns no entity.
  The exception is not swallowed and nothing is retried: \<open>list_nodes\<close> and \<open>list_sizes\<close>
  raise when an element of the response lacks a required key, after the one request
  they send.\<close>

theorem missing_required_key:
  "(k \<in> {''id'', ''name'', ''status'', ''interfaces'', ''cloud_ips'', ''server_type'', ''image''} \<longrightarrow>
      py_getitem data k = Inl KeyError \<longrightarrow> (\<exists>e. to_node self data = Inl e)) \<and>
   (k \<in> {''id'', ''name'', ''ram'', ''disk_size''} \<longrightarrow>
      py_getitem data k = Inl KeyError \<longrightarrow> to_size self data = Inl KeyError) \<and>
   (k \<in> {''id'', ''name''} \<longrightarrow>
      py_getitem data k = Inl KeyError \<longrightarrow> (\<exists>e. to_image self data = Inl e)) \<and>
   (k \<in> {''id'', ''handle''} \<longrightarrow>
      py_getitem data k = Inl KeyError \<longrightarrow> to_location self data = Inl KeyError) \<and>
   (\<forall>resp xs.
      respond (connection self) (sent (connection self))
        (get_request (''/%s/servers'', [JStr API_VERSION])) = Inr resp \<longrightarrow>
      py_iter (resp_object resp) = Inr xs \<longrightarrow> data \<in> set xs \<longrightarrow>
      k \<in> {''id'', ''name'', ''status'', ''interfaces'', ''cloud_ips'', ''server_type'', ''image''} \<longrightarrow>
      py_getitem data k = Inl KeyError \<longrightarrow>
      (\<exists>e. fst (list_nodes self) = Inl e) \<and>
      sent (connection (snd (list_nodes self))) =
        sent (connection self) @ [get_request (''/%s/servers'', [JStr API_VERSION])]) \<and>
   (\<forall>resp xs.
      respond (connection self) (sent (connection self))
        (get_request (''/%s/server_types'', [JStr API_VERSION])) = Inr resp \<longrightarrow>
      py_iter (resp_object resp) = Inr xs \<longrightarrow> data \<in> set xs \<longrightarrow>
      k \<in> {''id'', ''name'', ''ram'', ''disk_size''} \<longrightarrow>
      py_getitem data k = Inl KeyError \<longrightarrow>
      (\<exists>e. fst (list_sizes self) = Inl e) \<and>
      sent (connection (snd (list_sizes self))) =
        sent (connection self) @ [get_request (''/%s/server_types'', [JStr API_VERSION])])"
proof (intro conjI allI impI)
  assume "k \<in> {''id'', ''name'', ''status'', ''interfaces'', ''cloud_ips'', ''server_type'', ''image''}"
    and "py_getitem data k = Inl KeyError"
  then show "\<exists>e. to_node self data = Inl e"
    by (rule to_node_missing)
next
  assume "k \<in> {''id'', ''name'', ''ram'', ''disk_size''}" and "py_getitem data k = Inl KeyError"
  then show "to_size self data = Inl KeyError"
    by (rule to_size_obj_KeyError)
next
  assume "k \<in> {''id'', ''name''}" and "py_getitem data k = Inl KeyError"
  then show "\<exists>e. to_image self data = Inl e"
    by (rule to_image_missing)
next
  assume "k \<in> {''id'', ''handle''}" and "py_getitem data k = Inl KeyError"
  then show "to_location self data = Inl KeyError"
    by (rule to_location_obj_KeyError)
next
  fix resp xs
  assume "respond (connection self) (sent (connection self))
        (get_request (''/%s/servers'', [JStr API_VERSION])) = Inr resp"
    and "py_iter (resp_object resp) = Inr xs" and "data \<in> set xs"
    and "k \<in> {''id'', ''name'', ''status'', ''interfaces'', ''cloud_ips'', ''server_type'', ''image''}"
    and "py_getitem data k = Inl KeyError"
  then show "\<exists>e. fst (list_nodes self) = Inl e"
    by (rule list_nodes_missing)
next
  fix resp xs
  assume "respond (connection self) (sent (connection self))
        (get_request (''/%s/server_types'', [JStr API_VERSION])) = Inr resp"
    and "py_iter (resp_object resp) = Inr xs" and "data \<in> set xs"
    and "k \<in> {''id'', ''name'', ''ram'', ''disk_size''}"
    and "py_getitem data k = Inl KeyError"
  then show "\<exists>e. fst (list_sizes self) = Inl e"
    by (rule list_sizes_missing)
qed (rule list_sent)+

theorem missing_required_key_witness:
  "''ram'' \<in> {''id'', ''name'', ''ram'', ''disk_size''} \<and>
   py_getitem example_incomplete_payload ''ram'' = Inl KeyError \<and>
   to_size example_driver example_incomplete_payload = Inl KeyError \<and>
   ''status'' \<in> {''id'', ''name'', ''status'', ''interfaces'', ''cloud_ips'', ''server_type'', ''image''} \<and>
   py_getitem example_incomplete_payload ''status'' = Inl KeyError \<and>
   (\<exists>e. to_node example_driver example_incomplete_payload = Inl e) \<and>
   respond (connection example_driver_ok) (sent (connection example_driver_ok))
     (get_request (''/%s/server_types'', [JStr API_VERSION])) =
     Inr \<lparr>resp_status = 200,
          resp_object = JList [example_size_payload, example_incomplete_payload]\<rparr> \<and>
   example_incomplete_payload \<in> set [example_size_payload, example_incomplete_payload] \<and>
   (\<exists>e. fst (list_sizes example_driver_ok) = Inl e) \<and>
   sent (connection (snd (list_sizes example_driver_ok))) =
     sent (connection example_driver_ok) @ [get_request (''/%s/server_types'', [JStr API_VERSION])]"
proof -
  have m1: "''ram'' \<in> {''id'', ''name'', ''ram'', ''disk_size''}"
    and m2: "''status'' \<in> {''id'', ''name'', ''status'', ''interfaces'', ''cloud_ips'',
      ''server_type'', ''image''}"
    by simp_all
  have g1: "py_getitem example_incomplete_payload ''ram'' = Inl KeyError"
    and g2: "py_getitem example_incomplete_payload ''status'' = Inl KeyError"
    by (simp_all add: example_incomplete_payload_def)
  have resp: "respond (connection example_driver_ok) (sent (connection example_driver_ok))
     (get_request (''/%s/server_types'', [JStr API_VERSION])) =
     Inr \<lparr>resp_status = 200,
          resp_object = JList [example_size_payload, example_incomplete_payload]\<rparr>"
    by (simp add: example_driver_ok_def)
  have it: "py_iter (resp_object \<lparr>resp_status = 200,
          resp_object = JList [example_size_payload, example_incomplete_payload]\<rparr>) =
        Inr [example_size_payload, example_incomplete_payload]"
    by simp
  have mem: "example_incomplete_payload \<in> set [example_size_payload, example_incomplete_payload]"
    by simp
  note s = missing_required_key [of "''ram''" example_incomplete_payload example_driver]
  note n = missing_required_key [of "''status''" example_incomplete_payload example_driver]
  note l = missing_required_key [of "''ram''" example_incomplete_payload example_driver_ok]
  note s1 = s [THEN conjunct2, THEN conjunct1, THEN mp, THEN mp, OF m1 g1]
  note n1 = n [THEN conjunct1, THEN mp, THEN mp, OF m2 g2]
  note l1 = l [THEN conjunct2, THEN conjunct2, THEN conjunct2, THEN conjunct2, THEN conjunct2,
      THEN spec, THEN spec, THEN mp, THEN mp, THEN mp, THEN mp, THEN mp,
      OF resp it mem m1 g1]
  show ?thesis
    by (intro conjI) (rule m1 g1 s1 m2 g2 n1 resp mem l1 [THEN conjunct1] l1 [THEN conjunct2])+
qed

subsection \<open>C8: bandwidth and price of a size\<close>

text \<open>Claim C8. Every Size that \<open>to_size\<close> produces has bandwidth zero and price zero,
  whatever the payload holds.\<close>

theorem to_size_bandwidth_price_zero:
  "to_size self data = Inr sz \<Longrightarrow> size_bandwidth sz = 0 \<and> size_price sz = 0"
  by (auto simp: to_size_def and_then_eq_Inr)

theorem to_size_bandwidth_price_zero_witness:
  "to_size example_driver example_size_payload = Inr example_size \<and>
   size_bandwidth example_size = 0 \<and> size_price example_size = 0"
  using to_size_bandwidth_price_zero [OF example_to_size] example_to_size by simp

subsection \<open>C10: the keys of an extension bag\<close>

text \<open>Claim C10. The keys of the extension bag of a produced Node or Image are exactly the
  keys of the allow-list that the payload has, each once: an allow-listed key that the
  payload lacks gets no entry. The values are the payload's, but for the \<^verbatim>\<open>ancestor\<close>
  of an image when it is present and not null, which is the normalized ancestor.\<close>

theorem extension_bag_keys:
  "(\<forall>node. to_node self (JObj kvs) = Inr node \<longrightarrow>
      fst ` set (node_extra node) = set node_extra_keys \<inter> fst ` set kvs \<and>
      distinct (map fst (node_extra node)) \<and>
      (\<forall>k\<in>set node_extra_keys. map_of (node_extra node) k = map_of kvs k)) \<and>
   (\<forall>img. to_image self (JObj kvs) = Inr img \<longrightarrow>
      fst ` set (image_extra img) = set image_extra_keys \<inter> fst ` set kvs \<and>
      distinct (map fst (image_extra img)) \<and>
      (\<forall>k\<in>set image_extra_keys.
         (k = ''ancestor'' \<and> (\<exists>a. map_of kvs k = Some a \<and> a \<noteq> JNull)) \<or>
         map_of (image_extra img) k = map_option Raw (map_of kvs k)) \<and>
      (\<forall>a. map_of kvs ''ancestor'' = Some a \<longrightarrow> a \<noteq> JNull \<longrightarrow>
         (\<exists>anc. to_image self a = Inr anc \<and>
            map_of (image_extra img) ''ancestor'' = Some (Img anc))))"
proof (intro conjI allI impI)
  fix node
  assume ok: "to_node self (JObj kvs) = Inr node"
  from to_node_Inr_obj [OF ok]
  have ex: "node_extra node =
      List.map_filter (\<lambda>k. map_option (Pair k) (map_of kvs k)) node_extra_keys"
    by auto
  show "fst ` set (node_extra node) = set node_extra_keys \<inter> fst ` set kvs"
    by (simp only: ex fst_set_map_filter_keys dom_map_of_conv_image_fst)
  show "distinct (map fst (node_extra node))"
    by (simp only: ex map_fst_map_filter_keys distinct_filter distinct_node_extra_keys)
  show "\<forall>k\<in>set node_extra_keys. map_of (node_extra node) k = map_of kvs k"
    by (simp add: ex map_of_map_filter_keys)
next
  fix img
  assume ok: "to_image self (JObj kvs) = Inr img"
  note shape = to_image_obj_Inr [OF ok]
  have cases: "image_extra img = raw_extra kvs \<and>
        (map_of kvs ''ancestor'' = None \<or> map_of kvs ''ancestor'' = Some JNull) \<or>
      (\<exists>a anc. map_of kvs ''ancestor'' = Some a \<and> a \<noteq> JNull \<and> to_image self a = Inr anc \<and>
         image_extra img = AList.update ''ancestor'' (Img anc) (raw_extra kvs))"
    using shape by (auto split: option.splits if_splits)
  have anc_key: "''ancestor'' \<in> fst ` set (raw_extra kvs)" if "map_of kvs ''ancestor'' = Some a" for a
    using that ancestor_allowed by (auto simp: keys_raw_extra)
  have "fst ` set (image_extra img) = fst ` set (raw_extra kvs)"
    using cases
  proof (elim disjE conjE exE)
    fix a anc
    assume "map_of kvs ''ancestor'' = Some a"
      and "image_extra img = AList.update ''ancestor'' (Img anc) (raw_extra kvs)"
    with anc_key [of a] show ?thesis
      by (simp only: dom_update) blast
  qed simp_all
  then show "fst ` set (image_extra img) = set image_extra_keys \<inter> fst ` set kvs"
    by (simp only: keys_raw_extra dom_map_of_conv_image_fst)
  show "distinct (map fst (image_extra img))"
    using cases
    by (auto simp: distinct_update map_fst_raw_extra distinct_image_extra_keys)
  show "\<forall>k\<in>set image_extra_keys.
         (k = ''ancestor'' \<and> (\<exists>a. map_of kvs k = Some a \<and> a \<noteq> JNull)) \<or>
         map_of (image_extra img) k = map_option Raw (map_of kvs k)"
  proof
    fix k
    assume k: "k \<in> set image_extra_keys"
    show "(k = ''ancestor'' \<and> (\<exists>a. map_of kvs k = Some a \<and> a \<noteq> JNull)) \<or>
         map_of (image_extra img) k = map_option Raw (map_of kvs k)"
    proof (cases "k = ''ancestor'' \<and> (\<exists>a. map_of kvs k = Some a \<and> a \<noteq> JNull)")
      case False
      with cases have "map_of (image_extra img) k = map_of (raw_extra kvs) k"
        by (auto simp: update_conv')
      with k show ?thesis
        by (simp add: map_of_raw_extra)
    qed blast
  qed
  show "\<exists>anc. to_image self a = Inr anc \<and> map_of (image_extra img) ''ancestor'' = Some (Img anc)"
    if "map_of kvs ''ancestor'' = Some a" "a \<noteq> JNull" for a
    using cases that by (auto simp: update_conv')
qed

theorem extension_bag_keys_witness:
  "to_node example_driver (JObj (example_server_fields ''active'')) = Inr example_node \<and>
   fst ` set (node_extra example_node) =
     set node_extra_keys \<inter> fst ` set (example_server_fields ''active'') \<and>
   map fst (node_extra example_node) = [''fqdn'', ''status'', ''interfaces'', ''hostname''] \<and>
   ''zone'' \<in> set node_extra_keys \<and>
   map_of (node_extra example_node) ''zone'' = map_of (example_server_fields ''active'') ''zone'' \<and>
   map_of (example_server_fields ''active'') ''zone'' = None \<and>
   to_image example_driver (JObj example_image_fields) = Inr example_image \<and>
   fst ` set (image_extra example_image) = set image_extra_keys \<inter> fst ` set example_image_fields \<and>
   map fst (image_extra example_image) = [''ancestor'', ''arch'', ''official''] \<and>
   ''arch'' \<in> set image_extra_keys \<and>
   map_of (image_extra example_image) ''arch'' = map_option Raw (map_of example_image_fields ''arch'') \<and>
   map_of example_image_fields ''ancestor'' = Some example_ancestor_payload \<and>
   example_ancestor_payload \<noteq> JNull \<and>
   (\<exists>anc. to_image example_driver example_ancestor_payload = Inr anc \<and>
      map_of (image_extra example_image) ''ancestor'' = Some (Img anc))"
proof -
  have n: "to_node example_driver (JObj (example_server_fields ''active'')) = Inr example_node"
    using example_to_node by (simp only: example_server_fields_active)
  have i: "to_image example_driver (JObj example_image_fields) = Inr example_image"
    using example_to_image by (simp only: example_image_payload_fields)
  have z: "''zone'' \<in> set node_extra_keys" and a: "''arch'' \<in> set image_extra_keys"
    by (simp_all add: node_extra_keys_def image_extra_keys_def)
  have zn: "map_of (example_server_fields ''active'') ''zone'' = None"
    by (simp add: example_server_fields_def)
  have an: "map_of example_image_fields ''ancestor'' = Some example_ancestor_payload"
    by (simp add: example_image_fields_def)
  have kn: "map fst (node_extra example_node) = [''fqdn'', ''status'', ''interfaces'', ''hostname'']"
    by (simp add: example_node_def)
  have ki: "map fst (image_extra example_image) = [''ancestor'', ''arch'', ''official'']"
    by (simp add: example_image_def)
  note tn = extension_bag_keys [of example_driver "example_server_fields ''active''",
      THEN conjunct1, THEN spec, THEN mp, OF n]
  note ti = extension_bag_keys [of example_driver example_image_fields,
      THEN conjunct2, THEN spec, THEN mp, OF i]
  note vn = tn [THEN conjunct2, THEN conjunct2, THEN bspec, OF z]
  have va: "map_of (image_extra example_image) ''arch'' =
      map_option Raw (map_of example_image_fields ''arch'')"
    using ti [THEN conjunct2, THEN conjunct2, THEN conjunct1, THEN bspec, OF a] by simp
  note anc = ti [THEN conjunct2, THEN conjunct2, THEN conjunct2, THEN spec, THEN mp, THEN mp,
      OF an example_ancestor_payload_not_null]
  show ?thesis
    by (intro conjI)
       (rule n tn [THEN conjunct1] kn z vn zn i ti [THEN conjunct1] ki a va an
          example_ancestor_payload_not_null anc)+
qed

end
